theory Spec2Isabelle
  imports Main "HOL-Library.Sublist" "HOL-Library.AList" "HOL-Library.Word"
    "HOL-Library.Char_ord" "HOL-Library.List_Lexorder"
begin

section \<open>Python text primitives\<close>

text \<open>
  Text handled by the filename parser, the response parser and the tool-result router is
  modelled as \<^typ>\<open>string\<close>: a list of code points below 256. On that range the
  builtins below (\<open>str.split\<close>, \<open>str.strip\<close>, \<open>str.lower\<close>, \<open>in\<close>, \<open>str.replace\<close>,
  \<open>str.startswith\<close>) are written out as Python defines them.
\<close>

text \<open>\<open>s.split(sep)\<close> for a non-empty separator: cut at each leftmost, non-overlapping
  occurrence. Every call site of the source passes a non-empty literal.\<close>

fun py_split :: "string \<Rightarrow> string \<Rightarrow> string list" where
  "py_split sep [] = [[]]"
| "py_split sep (x # xs) =
     (if prefix sep (x # xs) then [] # py_split sep (drop (length sep - 1) xs)
      else (case py_split sep xs of [] \<Rightarrow> [[x]] | t # ts \<Rightarrow> (x # t) # ts))"

text \<open>\<open>s.rfind(c)\<close> for one character: the last index holding it, \<open>None\<close> for Python's -1.\<close>

fun rfind_char :: "char \<Rightarrow> string \<Rightarrow> nat option" where
  "rfind_char c [] = None"
| "rfind_char c (x # xs) =
     (case rfind_char c xs of
        Some i \<Rightarrow> Some (Suc i)
      | None \<Rightarrow> if x = c then Some 0 else None)"

text \<open>\<open>sub in s\<close>: \<open>sub\<close> occurs in \<open>s\<close> as a contiguous substring.\<close>

fun py_in :: "string \<Rightarrow> string \<Rightarrow> bool" where
  "py_in sub [] = (sub = [])"
| "py_in sub (x # xs) = (prefix sub (x # xs) \<or> py_in sub xs)"

text \<open>\<open>s.replace(old, new)\<close> for a non-empty \<open>old\<close>.\<close>

fun py_replace :: "string \<Rightarrow> string \<Rightarrow> string \<Rightarrow> string" where
  "py_replace old new [] = []"
| "py_replace old new (x # xs) =
     (if prefix old (x # xs) then new @ py_replace old new (drop (length old - 1) xs)
      else x # py_replace old new xs)"

text \<open>\<open>sep.join(xs)\<close>.\<close>

fun py_join :: "string \<Rightarrow> string list \<Rightarrow> string" where
  "py_join sep [] = []"
| "py_join sep [x] = x"
| "py_join sep (x # y # ys) = x @ sep @ py_join sep (y # ys)"

definition newline :: char where
  "newline = CHR 0x0A"

text \<open>\<open>str.isspace\<close> on one character: below 256 the whitespace characters are
  U+0009..U+000D, U+001C..U+001F, U+0020, U+0085 and U+00A0. The same set is what
  \<open>strip\<close> removes and what the pattern \<open>\s\<close> matches.\<close>

definition isspace :: "char \<Rightarrow> bool" where
  "isspace c =
     (let n = (of_char c :: nat)
      in (9 \<le> n \<and> n \<le> 13) \<or> (28 \<le> n \<and> n \<le> 32) \<or> n = 133 \<or> n = 160)"

definition py_strip :: "string \<Rightarrow> string" where
  "py_strip s = rev (dropWhile isspace (rev (dropWhile isspace s)))"

text \<open>\<open>str.lower\<close>: below 256 the cased upper-case characters are A..Z and
  U+00C0..U+00DE without the multiplication sign U+00D7; each maps 32 places up.\<close>

definition lower_char :: "char \<Rightarrow> char" where
  "lower_char c =
     (let n = (of_char c :: nat)
      in if (65 \<le> n \<and> n \<le> 90) \<or> (192 \<le> n \<and> n \<le> 222 \<and> n \<noteq> 215)
         then char_of (n + 32) else c)"

definition py_lower :: "string \<Rightarrow> string" where
  "py_lower s = map lower_char s"

text \<open>\<open>max(xs, key=key)\<close> with integer keys, on a list with first element \<open>x\<close>: the first
  element whose key is maximal.\<close>

definition py_max_by :: "('a \<Rightarrow> 'k::linorder) \<Rightarrow> 'a \<Rightarrow> 'a list \<Rightarrow> 'a" where
  "py_max_by key x xs = foldl (\<lambda>best y. if key best < key y then y else best) x xs"

section \<open>Context builder: \<open>parse_filename_data\<close>\<close>

text \<open>\<open>Path(p).name\<close>, POSIX flavour: the last path component that is neither empty nor
  a single dot, the empty string when there is none.\<close>

definition path_name :: "string \<Rightarrow> string" where
  "path_name p =
     (case rev (filter (\<lambda>c. c \<noteq> [] \<and> c \<noteq> ''.'') (py_split ''/'' p)) of
        [] \<Rightarrow> []
      | n # _ \<Rightarrow> n)"

text \<open>\<open>Path(p).stem\<close>: the name up to its last dot, when that dot is neither the first nor
  the last character of the name.\<close>

definition path_stem :: "string \<Rightarrow> string" where
  "path_stem p =
     (let name = path_name p in
      case rfind_char CHR ''.'' name of
        None \<Rightarrow> name
      | Some i \<Rightarrow> if 0 < i \<and> i < length name - 1 then take i name else name)"

text \<open>The function returns a dict with seven string keys. Nothing in its \<open>try\<close> block can
  raise on a string argument, so the \<open>except\<close> branch is not a branch of the model.\<close>

definition parse_filename_data :: "string \<Rightarrow> (string \<rightharpoonup> string)" where
  "parse_filename_data filename =
     (let name_without_ext = path_stem filename;
          parts = py_split ''_'' name_without_ext;
          parsed_data = [''filename'' \<mapsto> filename, ''code'' \<mapsto> [], ''type'' \<mapsto> [],
                         ''color'' \<mapsto> [], ''name'' \<mapsto> [], ''category'' \<mapsto> [],
                         ''number'' \<mapsto> []]
      in if 6 \<le> length parts
         then parsed_data(''code'' \<mapsto> parts ! 0, ''type'' \<mapsto> parts ! 1,
                          ''color'' \<mapsto> parts ! 2, ''name'' \<mapsto> parts ! 3,
                          ''category'' \<mapsto> parts ! 4,
                          ''number'' \<mapsto> (if 5 < length parts then parts ! 5 else []))
         else parsed_data)"

section \<open>Response parser: \<open>_parse_ai_response_for_metadata\<close>\<close>

text \<open>
  The parser searches the response with fixed regular expressions. Each pattern shape is
  written out as the backtracking matcher it denotes; \<open>re.search\<close> tries the start
  positions from left to right and returns the first match. Under \<open>re.IGNORECASE\<close> a
  lower-case letter of a pattern matches a character \<open>c\<close> below 256 exactly when
  \<open>lower_char c\<close> is that letter.
\<close>

definition starts_with_ci :: "string \<Rightarrow> string \<Rightarrow> bool" where
  "starts_with_ci kw t = (length kw \<le> length t \<and> py_lower (take (length kw) t) = kw)"

text \<open>\<open>\s*:\<close> - the greedy whitespace run, then a colon; returns the text after it.\<close>

fun after_ws_colon :: "string \<Rightarrow> string option" where
  "after_ws_colon [] = None"
| "after_ws_colon (c # cs) =
     (if isspace c then after_ws_colon cs
      else if c = CHR '':'' then Some cs else None)"

text \<open>\<open>\s*(.+?)(?:\n|$)\<close> under \<open>re.MULTILINE\<close>: the greedy \<open>\s*\<close> first tries to take one
  more whitespace character (a line break is one); when the rest then fails it gives the
  character back, and the group must start there. The group is lazy and a dot matches no
  line break, so it runs to the end of the line it starts on.\<close>

fun match_value :: "string \<Rightarrow> string option" where
  "match_value [] = None"
| "match_value (c # cs) =
     (if isspace c
      then (case match_value cs of
              Some g \<Rightarrow> Some g
            | None \<Rightarrow> if c \<noteq> newline
                      then Some (takeWhile (\<lambda>x. x \<noteq> newline) (c # cs)) else None)
      else Some (takeWhile (\<lambda>x. x \<noteq> newline) (c # cs)))"

text \<open>The pattern \<open>kw\s*:\s*(.+?)(?:\n|$)\<close> anchored at the head of \<open>t\<close>, and searched.\<close>

definition match_field_at :: "string \<Rightarrow> string \<Rightarrow> string option" where
  "match_field_at kw t =
     (if starts_with_ci kw t
      then (case after_ws_colon (drop (length kw) t) of
              None \<Rightarrow> None
            | Some r \<Rightarrow> match_value r)
      else None)"

fun re_search_field :: "string \<Rightarrow> string \<Rightarrow> string option" where
  "re_search_field kw [] = None"
| "re_search_field kw (c # cs) =
     (case match_field_at kw (c # cs) of
        Some g \<Rightarrow> Some g
      | None \<Rightarrow> re_search_field kw cs)"

definition is_quote :: "char \<Rightarrow> bool" where
  "is_quote c = (c = CHR 0x22 \<or> c = CHR 0x27)"

text \<open>The pattern \<open>kw["']?\s*[:=]\s*["']([^"']+)["']\<close> anchored at the head of \<open>t\<close>.
  No step has a second way to succeed: a quote is neither whitespace nor one of \<open>:=\<close>,
  whitespace is neither of both, and the group cannot run over the closing quote.\<close>

definition match_quoted_at :: "string \<Rightarrow> string \<Rightarrow> string option" where
  "match_quoted_at kw t =
     (if starts_with_ci kw t
      then (let r1 = drop (length kw) t;
                r2 = (case r1 of [] \<Rightarrow> [] | c # cs \<Rightarrow> if is_quote c then cs else r1)
            in case dropWhile isspace r2 of
                 [] \<Rightarrow> None
               | c # r3 \<Rightarrow>
                   if c = CHR '':'' \<or> c = CHR ''=''
                   then (case dropWhile isspace r3 of
                           [] \<Rightarrow> None
                         | q # r4 \<Rightarrow>
                             if is_quote q
                             then (let g = takeWhile (\<lambda>x. \<not> is_quote x) r4
                                   in if g \<noteq> [] \<and> dropWhile (\<lambda>x. \<not> is_quote x) r4 \<noteq> []
                                      then Some g else None)
                             else None)
                   else None)
      else None)"

fun re_search_quoted :: "string \<Rightarrow> string \<Rightarrow> string option" where
  "re_search_quoted kw [] = None"
| "re_search_quoted kw (c # cs) =
     (case match_quoted_at kw (c # cs) of
        Some g \<Rightarrow> Some g
      | None \<Rightarrow> re_search_quoted kw cs)"

text \<open>The pattern \<open><title>([^<]+)</title>\<close> anchored at the head of \<open>t\<close>, and searched.\<close>

definition match_title_tag_at :: "string \<Rightarrow> string option" where
  "match_title_tag_at t =
     (if starts_with_ci ''<title>'' t
      then (let r = drop 7 t; g = takeWhile (\<lambda>x. x \<noteq> CHR ''<'') r
            in if g \<noteq> [] \<and> starts_with_ci ''</title>'' (dropWhile (\<lambda>x. x \<noteq> CHR ''<'') r)
               then Some g else None)
      else None)"

fun re_search_title_tag :: "string \<Rightarrow> string option" where
  "re_search_title_tag [] = None"
| "re_search_title_tag (c # cs) =
     (case match_title_tag_at (c # cs) of
        Some g \<Rightarrow> Some g
      | None \<Rightarrow> re_search_title_tag cs)"

text \<open>The \<open>for pattern in ...: match = re.search(...); if match: ...; break\<close> loops: the
  first pattern of the list that matches gives the value.\<close>

fun first_match :: "string option list \<Rightarrow> string option" where
  "first_match [] = None"
| "first_match (None # ms) = first_match ms"
| "first_match (Some g # ms) = Some g"

type_synonym pydict = "(string \<times> string) list"

text \<open>A metadata dict is an association list in insertion order; \<open>d[k] = v\<close> is
  \<open>AList.update k v d\<close>, which overwrites in place or appends. \<open>d.get(k)\<close> is falsy when
  the key is absent or its value is the empty string.\<close>

definition dict_get_falsy :: "pydict \<Rightarrow> string \<Rightarrow> bool" where
  "dict_get_falsy d k = (case map_of d k of None \<Rightarrow> True | Some v \<Rightarrow> v = [])"

definition set_if :: "string \<Rightarrow> string option \<Rightarrow> pydict \<Rightarrow> pydict" where
  "set_if k v d = (case v of None \<Rightarrow> d | Some x \<Rightarrow> AList.update k x d)"

definition keyword_indicators :: "string list" where
  "keyword_indicators =
     [''kitchen'', ''worktop'', ''countertop'', ''cabinet'', ''modern'', ''design'',
      ''concrete'', ''wood'', ''granite'', ''braganza'']"

definition description_parts :: "string \<Rightarrow> string list" where
  "description_parts ai_response =
     filter (\<lambda>line. line \<noteq> [] \<and> \<not> prefix ''**'' line \<and> \<not> prefix ''###'' line \<and>
                     \<not> prefix ''```'' line \<and> 20 < length line)
       (map py_strip (py_split [newline] ai_response))"

definition find_description :: "string \<Rightarrow> string option" where
  "find_description ai_response =
     (case description_parts ai_response of
        [] \<Rightarrow> None
      | x # xs \<Rightarrow> Some (py_max_by length x xs))"

definition find_keywords :: "string \<Rightarrow> string option" where
  "find_keywords ai_response =
     (let keywords = filter (\<lambda>indicator. py_in (py_lower indicator) (py_lower ai_response))
                       keyword_indicators
      in if keywords = [] then None else Some (py_join '', '' keywords))"

definition find_title :: "string \<Rightarrow> string option" where
  "find_title ai_response =
     (case re_search_field ''title'' ai_response of
        Some g \<Rightarrow> Some (py_strip g)
      | None \<Rightarrow>
          if py_in ''title'' (py_lower ai_response) \<or> py_in ''name'' (py_lower ai_response)
          then map_option py_strip
                 (first_match [re_search_quoted ''title'' ai_response,
                               re_search_title_tag ai_response,
                               re_search_quoted ''name'' ai_response])
          else None)"

definition find_structured :: "string \<Rightarrow> string list \<Rightarrow> string \<Rightarrow> string option" where
  "find_structured kw fallbacks ai_response =
     (case re_search_field kw ai_response of
        Some g \<Rightarrow> Some (py_strip g)
      | None \<Rightarrow>
          map_option py_strip (first_match (map (\<lambda>k. re_search_quoted k ai_response) fallbacks)))"

text \<open>\<open>current_filename_data\<close> is \<open>None\<close> while the attribute is unset
  (\<open>hasattr\<close> is false), else the dict the chat path stored.\<close>

definition from_filename_context ::
  "(string \<rightharpoonup> string) option \<Rightarrow> pydict \<Rightarrow> pydict" where
  "from_filename_context current_filename_data metadata =
     (if dict_get_falsy metadata ''Make'' \<and> dict_get_falsy metadata ''Model''
      then (case current_filename_data of
              None \<Rightarrow> metadata
            | Some filename_data \<Rightarrow>
                (let m1 = (case filename_data ''code'' of
                             None \<Rightarrow> metadata
                           | Some v \<Rightarrow> if v = [] then metadata
                                       else AList.update ''Make'' v metadata)
                 in case filename_data ''type'' of
                      None \<Rightarrow> m1
                    | Some v \<Rightarrow> if v = [] then m1 else AList.update ''Model'' v m1))
      else metadata)"

definition parse_ai_response_for_metadata ::
  "(string \<rightharpoonup> string) option \<Rightarrow> string \<Rightarrow> pydict" where
  "parse_ai_response_for_metadata current_filename_data ai_response =
     (let m1 = set_if ''Description'' (find_description ai_response) [];
          m2 = set_if ''Keywords'' (find_keywords ai_response) m1;
          m3 = set_if ''Title'' (find_title ai_response) m2;
          m4 = set_if ''Artist''
                 (find_structured ''artist'' [''artist'', ''company'', ''brand''] ai_response) m3;
          m5 = set_if ''Make''
                 (find_structured ''make'' [''make'', ''product code'', ''code''] ai_response) m4;
          m6 = set_if ''Model''
                 (find_structured ''model'' [''model'', ''type'', ''product type''] ai_response) m5;
          m7 = (if dict_get_falsy m6 ''Artist'' \<and> py_in ''egger'' (py_lower ai_response)
                then AList.update ''Artist'' ''[Your Company Name]'' m6 else m6)
      in from_filename_context current_filename_data m7)"

section \<open>Metadata codec\<close>

text \<open>
  Metadata values are Python strings that the codec encodes and decodes, so here a string
  is the list of its Unicode code points (\<open>ustr\<close>) and a \<open>bytes\<close> object is a list of
  8-bit words. \<open>str.encode\<close> raises \<open>UnicodeEncodeError\<close> on a surrogate code point: the
  encoders return \<open>None\<close> there. \<open>bytes.decode(..., errors='ignore')\<close> never raises: it
  drops what it cannot decode.
\<close>

type_synonym byte = "8 word"
type_synonym ustr = "nat list"

definition ustr_of :: "string \<Rightarrow> ustr" where
  "ustr_of s = map of_char s"

definition is_scalar :: "nat \<Rightarrow> bool" where
  "is_scalar c = (c < 0xD800 \<or> (0xE000 \<le> c \<and> c < 0x110000))"

definition utf16_unit :: "nat \<Rightarrow> byte list" where
  "utf16_unit u = [of_nat (u mod 256), of_nat (u div 256)]"

definition utf16le_char :: "nat \<Rightarrow> byte list option" where
  "utf16le_char c =
     (if \<not> is_scalar c then None
      else if c < 0x10000 then Some (utf16_unit c)
      else Some (utf16_unit (0xD800 + (c - 0x10000) div 1024) @
                 utf16_unit (0xDC00 + (c - 0x10000) mod 1024)))"

definition utf8_char :: "nat \<Rightarrow> byte list option" where
  "utf8_char c =
     (if \<not> is_scalar c then None
      else if c < 0x80 then Some [of_nat c]
      else if c < 0x800 then Some [of_nat (0xC0 + c div 64), of_nat (0x80 + c mod 64)]
      else if c < 0x10000
        then Some [of_nat (0xE0 + c div 4096), of_nat (0x80 + (c div 64) mod 64),
                   of_nat (0x80 + c mod 64)]
      else Some [of_nat (0xF0 + c div 262144), of_nat (0x80 + (c div 4096) mod 64),
                 of_nat (0x80 + (c div 64) mod 64), of_nat (0x80 + c mod 64)])"

fun encode_all :: "(nat \<Rightarrow> byte list option) \<Rightarrow> ustr \<Rightarrow> byte list option" where
  "encode_all enc [] = Some []"
| "encode_all enc (c # cs) =
     (case enc c of
        None \<Rightarrow> None
      | Some b \<Rightarrow> (case encode_all enc cs of None \<Rightarrow> None | Some bs \<Rightarrow> Some (b @ bs)))"

definition utf16le_encode :: "ustr \<Rightarrow> byte list option" where
  "utf16le_encode s = encode_all utf16le_char s"

definition utf8_encode :: "ustr \<Rightarrow> byte list option" where
  "utf8_encode s = encode_all utf8_char s"

text \<open>\<open>b.decode('utf-16le', errors='ignore')\<close>: two bytes make a unit, a high surrogate
  joins the low surrogate after it, a surrogate without its partner and a cut-off tail
  are dropped.\<close>

fun utf16le_decode :: "byte list \<Rightarrow> ustr" where
  "utf16le_decode (a # b # rest) =
     (let u = unat a + 256 * unat b in
      if 0xD800 \<le> u \<and> u < 0xDC00
      then (case rest of
              c # d # rest' \<Rightarrow>
                (let l = unat c + 256 * unat d in
                 if 0xDC00 \<le> l \<and> l < 0xE000
                 then (0x10000 + (u - 0xD800) * 1024 + (l - 0xDC00)) # utf16le_decode rest'
                 else utf16le_decode rest)
            | _ \<Rightarrow> [])
      else if 0xDC00 \<le> u \<and> u < 0xE000 then utf16le_decode rest
      else u # utf16le_decode rest)"
| "utf16le_decode _ = []"

definition is_cont :: "byte \<Rightarrow> bool" where
  "is_cont b = (0x80 \<le> unat b \<and> unat b \<le> 0xBF)"

text \<open>The second byte of a three- or four-byte sequence has a narrower range after the
  lead bytes E0, ED, F0 and F4 (no overlong forms, no surrogates, nothing past U+10FFFF).\<close>

definition second_ok :: "nat \<Rightarrow> byte \<Rightarrow> bool" where
  "second_ok lead b =
     (let n = unat b in
      if lead = 0xE0 then 0xA0 \<le> n \<and> n \<le> 0xBF
      else if lead = 0xED then 0x80 \<le> n \<and> n \<le> 0x9F
      else if lead = 0xF0 then 0x90 \<le> n \<and> n \<le> 0xBF
      else if lead = 0xF4 then 0x80 \<le> n \<and> n \<le> 0x8F
      else 0x80 \<le> n \<and> n \<le> 0xBF)"

text \<open>\<open>b.decode('utf-8', errors='ignore')\<close>: an ill-formed sequence is dropped up to the
  byte that breaks it, and decoding resumes at that byte.\<close>

fun utf8_decode :: "byte list \<Rightarrow> ustr" where
  "utf8_decode [] = []"
| "utf8_decode (b # bs) =
     (let n = unat b in
      if n < 0x80 then n # utf8_decode bs
      else if 0xC2 \<le> n \<and> n \<le> 0xDF
      then (case bs of
              [] \<Rightarrow> []
            | b1 # r1 \<Rightarrow>
                if is_cont b1 then ((n - 0xC0) * 64 + (unat b1 - 0x80)) # utf8_decode r1
                else utf8_decode bs)
      else if 0xE0 \<le> n \<and> n \<le> 0xEF
      then (case bs of
              [] \<Rightarrow> []
            | b1 # r1 \<Rightarrow>
                if second_ok n b1
                then (case r1 of
                        [] \<Rightarrow> []
                      | b2 # r2 \<Rightarrow>
                          if is_cont b2
                          then ((n - 0xE0) * 4096 + (unat b1 - 0x80) * 64 + (unat b2 - 0x80))
                               # utf8_decode r2
                          else utf8_decode r1)
                else utf8_decode bs)
      else if 0xF0 \<le> n \<and> n \<le> 0xF4
      then (case bs of
              [] \<Rightarrow> []
            | b1 # r1 \<Rightarrow>
                if second_ok n b1
                then (case r1 of
                        [] \<Rightarrow> []
                      | b2 # r2 \<Rightarrow>
                          if is_cont b2
                          then (case r2 of
                                  [] \<Rightarrow> []
                                | b3 # r3 \<Rightarrow>
                                    if is_cont b3
                                    then ((n - 0xF0) * 262144 + (unat b1 - 0x80) * 4096 +
                                          (unat b2 - 0x80) * 64 + (unat b3 - 0x80))
                                         # utf8_decode r3
                                    else utf8_decode r2)
                          else utf8_decode r1)
                else utf8_decode bs)
      else utf8_decode bs)"

definition bom :: "byte list" where
  "bom = [0xFF, 0xFE]"

datatype encoding = Utf16le | Utf8

text \<open>The 0th IFD of a file's EXIF block: tag id to the bytes stored under it.\<close>

type_synonym ifd = "nat \<rightharpoonup> byte list"

subsection \<open>\<open>save_simple_jpeg_metadata\<close>: the interactive JPEG writer\<close>

definition field_mapping :: "string \<rightharpoonup> (nat \<times> string \<times> encoding)" where
  "field_mapping =
     [''XPTitle'' \<mapsto> (40091, ''XPTitle'', Utf16le),
      ''ImageDescription'' \<mapsto> (270, ''ImageDescription'', Utf8),
      ''XPKeywords'' \<mapsto> (40094, ''XPKeywords'', Utf16le),
      ''Artist'' \<mapsto> (315, ''Artist'', Utf8),
      ''Make'' \<mapsto> (271, ''Make'', Utf8),
      ''Model'' \<mapsto> (272, ''Model'', Utf8)]"

definition encode_field :: "encoding \<Rightarrow> ustr \<Rightarrow> byte list option" where
  "encode_field encoding val =
     (case encoding of
        Utf16le \<Rightarrow>
          (case utf16le_encode val of
             None \<Rightarrow> None
           | Some encoded_value \<Rightarrow>
               Some (if \<not> prefix bom encoded_value then bom @ encoded_value
                     else encoded_value))
      | Utf8 \<Rightarrow> utf8_encode val)"

text \<open>The loop over \<open>metadata_dict.items()\<close>: \<open>None\<close> when an encoding raises (the
  function re-raises), else the updated IFD handed to \<open>piexif.dump\<close>.\<close>

fun save_simple_jpeg_tags :: "(string \<times> ustr) list \<Rightarrow> ifd \<Rightarrow> ifd option" where
  "save_simple_jpeg_tags [] exif = Some exif"
| "save_simple_jpeg_tags ((field_name, val) # items) exif =
     (case field_mapping field_name of
        None \<Rightarrow> save_simple_jpeg_tags items exif
      | Some (tag_id, tag_name, encoding) \<Rightarrow>
          (case encode_field encoding val of
             None \<Rightarrow> None
           | Some encoded_value \<Rightarrow> save_simple_jpeg_tags items (exif(tag_id \<mapsto> encoded_value))))"

subsection \<open>\<open>load_simple_metadata\<close>: the interactive reader\<close>

text \<open>What \<open>exifdata.get(tag_id)\<close> hands back for the six tags: a \<open>bytes\<close> object (the XP
  tags) or an already decoded \<open>str\<close> (the text tags).\<close>

datatype exif_value = Bytes "byte list" | Str ustr

text \<open>\<open>PIL.ExifTags.TAGS\<close> on the ids the reader maps; any other id has another name.\<close>

definition TAGS :: "nat \<rightharpoonup> string" where
  "TAGS = [40091 \<mapsto> ''XPTitle'', 270 \<mapsto> ''ImageDescription'', 40094 \<mapsto> ''XPKeywords'',
           315 \<mapsto> ''Artist'', 271 \<mapsto> ''Make'', 272 \<mapsto> ''Model'']"

definition simple_standard_fields :: "string list" where
  "simple_standard_fields =
     [''XPTitle'', ''ImageDescription'', ''XPKeywords'', ''Artist'', ''Make'', ''Model'']"

definition decode_tag :: "nat \<Rightarrow> exif_value \<Rightarrow> ustr" where
  "decode_tag tag_id data =
     (case data of
        Str s \<Rightarrow> s
      | Bytes b \<Rightarrow>
          if tag_id = 40091 \<or> tag_id = 40094
          then utf16le_decode (if prefix bom b then drop 2 b else b)
          else utf8_decode b)"

text \<open>One pass of the loop \<open>for tag_id in exifdata\<close>; \<open>str(data) if data else ''\<close> is the
  decoded text itself.\<close>

definition load_tag ::
  "(nat \<rightharpoonup> exif_value) \<Rightarrow> (string \<rightharpoonup> ustr) \<Rightarrow> nat \<Rightarrow> (string \<rightharpoonup> ustr)" where
  "load_tag exifdata all_fields tag_id =
     (case exifdata tag_id of
        None \<Rightarrow> all_fields
      | Some data \<Rightarrow>
          (case TAGS tag_id of
             None \<Rightarrow> all_fields
           | Some tag \<Rightarrow> all_fields(tag \<mapsto> decode_tag tag_id data)))"

text \<open>The reader's field table: every standard field starts empty, then the tags of the
  file are visited in the order \<open>tag_ids\<close> in which \<open>exifdata\<close> iterates.\<close>

definition load_simple_fields :: "nat list \<Rightarrow> (nat \<rightharpoonup> exif_value) \<Rightarrow> (string \<rightharpoonup> ustr)" where
  "load_simple_fields tag_ids exifdata =
     foldl (load_tag exifdata) (map_of (map (\<lambda>f. (f, [])) simple_standard_fields)) tag_ids"


subsection \<open>\<open>_save_jpeg_metadata_direct\<close>: the batch JPEG writer\<close>

text \<open>The six \<open>if key in metadata_dict\<close> statements, in the source's order, with the
  \<open>piexif.ImageIFD\<close> tag numbers. An encoding that raises ends in the function's
  \<open>except\<close> branch: \<open>None\<close>.\<close>

definition set_direct ::
  "string \<Rightarrow> nat \<Rightarrow> (ustr \<Rightarrow> byte list option) \<Rightarrow> (string \<rightharpoonup> ustr) \<Rightarrow> ifd option \<Rightarrow> ifd option" where
  "set_direct key tag_id enc metadata_dict exif0 =
     (case exif0 of
        None \<Rightarrow> None
      | Some exif \<Rightarrow>
          (case metadata_dict key of
             None \<Rightarrow> Some exif
           | Some val \<Rightarrow> (case enc val of None \<Rightarrow> None | Some b \<Rightarrow> Some (exif(tag_id \<mapsto> b)))))"

definition save_jpeg_direct_tags :: "(string \<rightharpoonup> ustr) \<Rightarrow> ifd \<Rightarrow> ifd option" where
  "save_jpeg_direct_tags metadata_dict exif =
     set_direct ''Model'' 272 utf8_encode metadata_dict
       (set_direct ''Make'' 271 utf8_encode metadata_dict
         (set_direct ''Artist'' 315 utf8_encode metadata_dict
           (set_direct ''XPKeywords'' 40094 utf16le_encode metadata_dict
             (set_direct ''ImageDescription'' 270 utf8_encode metadata_dict
               (set_direct ''XPTitle'' 40091 utf16le_encode metadata_dict (Some exif))))))"

section \<open>Application state and file system\<close>

text \<open>
  The attributes of the application object that the batch pipeline reads or writes.
  \<open>exiftool_path\<close> and \<open>current_filename_data\<close> are \<open>None\<close> while the attribute does not
  exist on the object; reading a missing attribute raises \<open>AttributeError\<close>.
  \<open>batch_threads\<close> counts the threads started on \<open>_process_batch_ai_thread\<close>.
\<close>

record chat_message =
  sender :: string
  message :: string

datatype log_entry =
    Log_starting
  | Log_rules nat
  | Log_processed string
  | Log_failed string
  | Log_error string
  | Log_complete
  | Log_results nat nat nat

record gui_state =
  batch_folder :: "string option"
  ai_enabled :: bool
  chat_messages :: "chat_message list"
  image_files :: "string list"
  ai_processing :: bool
  exiftool_path :: "string option"
  current_filename_data :: "(string \<rightharpoonup> string) option"
  batch_threads :: nat
  log_text :: "log_entry list"
  chat_folder_images :: "string list"
  chat_folder_path_str :: string

text \<open>What \<open>__init__\<close> assigns: no folder, AI disabled, no chat, no images, and neither
  \<open>exiftool_path\<close> nor \<open>current_filename_data\<close>.\<close>

definition init_state :: gui_state where
  "init_state =
     \<lparr>batch_folder = None, ai_enabled = False, chat_messages = [], image_files = [],
      ai_processing = False, exiftool_path = None, current_filename_data = None,
      batch_threads = 0, log_text = [], chat_folder_images = [], chat_folder_path_str = []\<rparr>"

text \<open>A file is an image with its 0th IFD and its image data, or whatever an interrupted
  write left behind.\<close>

record image_file =
  exif_0th :: ifd
  image_data :: "byte list"

datatype content = Image image_file | Damaged "byte list"

type_synonym fs = "string \<rightharpoonup> content"

text \<open>
  The collaborators outside the repository are the environment. For a write of the
  imaging libraries (PIL, piexif) on a path the environment chooses: all calls complete;
  a call raises before the target is opened for writing; or \<open>image.save\<close> raises after
  it opened the target, leaving some content in it. \<open>exif_block_len\<close> is the length of
  the EXIF block that \<open>piexif.dump\<close> builds around a 0th IFD for the image at hand.
  \<open>run_tool\<close> is \<open>subprocess.run\<close> on
  a command line: the return code and the files afterwards, \<open>None\<close> when it raises
  (tool missing, timeout). \<open>lm_studio_reply\<close> is the text the inference service returns
  for an image, \<open>None\<close> when the call fails.
\<close>

datatype save_event = Completes | Raises_before_write | Raises_during_write content

record environment =
  save_event_at :: "string \<Rightarrow> save_event"
  exif_block_len :: "ifd \<Rightarrow> nat"
  recompress :: "byte list \<Rightarrow> byte list"
  run_tool :: "string list \<Rightarrow> fs \<Rightarrow> (int \<times> fs) option"
  lm_studio_reply :: "string \<Rightarrow> string option"

text \<open>\<open>Path(p).suffix\<close>: the name from its last dot on, under the condition of
  \<open>path_stem\<close>; else the empty string.\<close>

definition path_suffix :: "string \<Rightarrow> string" where
  "path_suffix p =
     (let name = path_name p in
      case rfind_char CHR ''.'' name of
        None \<Rightarrow> []
      | Some i \<Rightarrow> if 0 < i \<and> i < length name - 1 then drop i name else [])"

text \<open>\<open>os.path.basename\<close>: the text after the last slash.\<close>

definition basename :: "string \<Rightarrow> string" where
  "basename p = (case rfind_char CHR ''/'' p of None \<Rightarrow> p | Some i \<Rightarrow> drop (Suc i) p)"

subsection \<open>The interactive writers and the reader on files\<close>

text \<open>The two backend writers return nothing: the boolean tells whether the call returned
  (\<open>True\<close>) or raised, next to the files afterwards. \<open>image.save\<close> opens its target for
  writing and then refuses an EXIF block longer than one JPEG marker segment can hold,
  which leaves the target empty.\<close>

definition max_bytes_in_marker :: nat where
  "max_bytes_in_marker = 65533"

definition save_simple_jpeg_metadata ::
  "environment \<Rightarrow> string \<Rightarrow> (string \<times> ustr) list \<Rightarrow> fs \<Rightarrow> bool \<times> fs" where
  "save_simple_jpeg_metadata env file_path metadata_dict files =
     (case files file_path of
        None \<Rightarrow> (False, files)
      | Some (Damaged left) \<Rightarrow> (False, files)
      | Some (Image img) \<Rightarrow>
          (case save_simple_jpeg_tags metadata_dict (exif_0th img) of
             None \<Rightarrow> (False, files)
           | Some exif' \<Rightarrow>
               (case save_event_at env file_path of
                  Raises_before_write \<Rightarrow> (False, files)
                | Raises_during_write left \<Rightarrow> (False, files(file_path \<mapsto> left))
                | Completes \<Rightarrow>
                    if max_bytes_in_marker < exif_block_len env exif'
                    then (False, files(file_path \<mapsto> Damaged []))
                    else (True, files(file_path \<mapsto>
                            Image \<lparr>exif_0th = exif',
                                   image_data = recompress env (image_data img)\<rparr>)))))"

text \<open>The WebP writer looks for the tool by asking each candidate for its version, then
  runs one command: for every mapped field the tag option and, as a separate argument, the
  value between double quotes; the file path comes last.\<close>

definition exiftool_paths :: "string list" where
  "exiftool_paths =
     [''exiftool'',
      ''.'' @ [CHR 0x5C] @ ''exiftool'' @ [CHR 0x5C] @ ''exiftool.exe'',
      ''C:'' @ [CHR 0x5C] @ ''exiftool'' @ [CHR 0x5C] @ ''exiftool.exe'']"

fun find_exiftool :: "environment \<Rightarrow> string list \<Rightarrow> fs \<Rightarrow> string option \<times> fs" where
  "find_exiftool env [] files = (None, files)"
| "find_exiftool env (path # rest) files =
     (case run_tool env [path, ''-ver''] files of
        None \<Rightarrow> find_exiftool env rest files
      | Some (returncode, files') \<Rightarrow>
          if returncode = 0 then (Some path, files') else find_exiftool env rest files')"

definition webp_field_mapping :: "string \<rightharpoonup> string" where
  "webp_field_mapping =
     [''XPTitle'' \<mapsto> ''-XMP:Title'', ''ImageDescription'' \<mapsto> ''-XMP:Description'',
      ''XPKeywords'' \<mapsto> ''-XMP:Subject'', ''Artist'' \<mapsto> ''-XMP:Creator'',
      ''Make'' \<mapsto> ''-XMP:Make'', ''Model'' \<mapsto> ''-XMP:Model'']"

definition webp_args :: "(string \<times> string) list \<Rightarrow> string list" where
  "webp_args metadata_dict =
     concat (map (\<lambda>(field_name, val).
                    case webp_field_mapping field_name of
                      None \<Rightarrow> []
                    | Some tag \<Rightarrow> [tag, [CHR 0x22] @ val @ [CHR 0x22]]) metadata_dict)"

definition save_simple_webp_metadata ::
  "environment \<Rightarrow> string \<Rightarrow> (string \<times> string) list \<Rightarrow> fs \<Rightarrow> bool \<times> fs" where
  "save_simple_webp_metadata env file_path metadata_dict files =
     (case find_exiftool env exiftool_paths files of
        (None, files1) \<Rightarrow> (False, files1)
      | (Some exiftool_cmd, files1) \<Rightarrow>
          (case run_tool env ([exiftool_cmd, ''-overwrite_original''] @ webp_args metadata_dict @
                              [file_path]) files1 of
             None \<Rightarrow> (False, files1)
           | Some (returncode, files2) \<Rightarrow> (returncode = 0, files2)))"

text \<open>\<open>image.getexif()\<close> on a file of either format: the 0th IFD, where the four text tags
  (type ASCII) arrive as \<open>str\<close>, each byte read as one Latin-1 character, and every other
  tag as \<open>bytes\<close>.\<close>

definition getexif :: "image_file \<Rightarrow> (nat \<rightharpoonup> exif_value)" where
  "getexif img =
     (\<lambda>tag_id. case exif_0th img tag_id of
                  None \<Rightarrow> None
                | Some b \<Rightarrow>
                    Some (if tag_id = 270 \<or> tag_id = 271 \<or> tag_id = 272 \<or> tag_id = 315
                          then Str (map unat b) else Bytes b))"

text \<open>The reader on a file: \<open>None\<close> when the image cannot be opened (the error dialog),
  else the field table. \<open>tag_ids\<close> is the order in which \<open>exifdata\<close> iterates. The
  \<open>INFO_\<close> entries the reader adds afterwards have other keys than the six fields.\<close>

definition load_simple_metadata :: "nat list \<Rightarrow> fs \<Rightarrow> string \<Rightarrow> (string \<rightharpoonup> ustr) option" where
  "load_simple_metadata tag_ids files file_path =
     (case files file_path of
        None \<Rightarrow> None
      | Some (Damaged left) \<Rightarrow> None
      | Some (Image img) \<Rightarrow> Some (load_simple_fields tag_ids (getexif img)))"

subsection \<open>\<open>_save_jpeg_metadata_direct\<close>, \<open>_save_webp_metadata_direct\<close>, \<open>_save_metadata_to_file\<close>\<close>

text \<open>Each function returns its boolean and the files afterwards. Every exception ends in
  the function's \<open>except\<close> branch, which logs and returns \<open>False\<close>.\<close>

definition save_jpeg_metadata_direct ::
  "environment \<Rightarrow> string \<Rightarrow> (string \<rightharpoonup> ustr) \<Rightarrow> fs \<Rightarrow> bool \<times> fs" where
  "save_jpeg_metadata_direct env image_path metadata_dict files =
     (case files image_path of
        None \<Rightarrow> (False, files)
      | Some (Damaged left) \<Rightarrow> (False, files)
      | Some (Image img) \<Rightarrow>
          (case save_jpeg_direct_tags metadata_dict (exif_0th img) of
             None \<Rightarrow> (False, files)
           | Some exif' \<Rightarrow>
               (case save_event_at env image_path of
                  Raises_before_write \<Rightarrow> (False, files)
                | Raises_during_write left \<Rightarrow> (False, files(image_path \<mapsto> left))
                | Completes \<Rightarrow>
                    (True, files(image_path \<mapsto>
                       Image \<lparr>exif_0th = exif',
                              image_data = recompress env (image_data img)\<rparr>)))))"

definition tool_arg :: "string \<Rightarrow> string \<Rightarrow> (string \<rightharpoonup> string) \<Rightarrow> string list" where
  "tool_arg key tag metadata_dict =
     (case metadata_dict key of None \<Rightarrow> [] | Some v \<Rightarrow> [tag, v])"

definition save_webp_metadata_direct ::
  "environment \<Rightarrow> gui_state \<Rightarrow> string \<Rightarrow> (string \<rightharpoonup> string) \<Rightarrow> fs \<Rightarrow> bool \<times> fs" where
  "save_webp_metadata_direct env self image_path metadata_dict files =
     (case exiftool_path self of
        None \<Rightarrow> (False, files)
      | Some tool \<Rightarrow>
          (let cmd = [tool, ''-overwrite_original''] @
                     tool_arg ''XPTitle'' ''-XMP:Title'' metadata_dict @
                     tool_arg ''ImageDescription'' ''-XMP:Description'' metadata_dict @
                     tool_arg ''XPKeywords'' ''-XMP:Subject'' metadata_dict @
                     tool_arg ''Artist'' ''-XMP:Creator'' metadata_dict @
                     tool_arg ''Make'' ''-XMP:Make'' metadata_dict @
                     tool_arg ''Model'' ''-XMP:Model'' metadata_dict @
                     [image_path]
           in case run_tool env cmd files of
                None \<Rightarrow> (False, files)
              | Some (returncode, files') \<Rightarrow> (returncode = 0, files')))"

definition save_metadata_to_file ::
  "environment \<Rightarrow> gui_state \<Rightarrow> string \<Rightarrow> pydict \<Rightarrow> fs \<Rightarrow> bool \<times> fs" where
  "save_metadata_to_file env self image_path metadata_dict files =
     (let file_ext = py_lower (path_suffix image_path)
      in if file_ext = ''.jpg'' \<or> file_ext = ''.jpeg''
         then save_jpeg_metadata_direct env image_path
                (map_option ustr_of \<circ> map_of metadata_dict) files
         else if file_ext = ''.webp''
         then save_webp_metadata_direct env self image_path (map_of metadata_dict) files
         else (False, files))"

section \<open>Batch orchestrator\<close>

subsection \<open>\<open>start_batch_ai_processing\<close>\<close>

text \<open>The entry point shows a warning and returns, returns when the user declines the
  confirmation dialog (\<open>askyesno\<close> is the user's answer), or starts a thread.\<close>

datatype start_result = Warning string | Declined | Thread_started

definition start_batch_ai_processing :: "bool \<Rightarrow> gui_state \<Rightarrow> start_result \<times> gui_state" where
  "start_batch_ai_processing askyesno self =
     (if batch_folder self = None \<or> batch_folder self = Some []
      then (Warning ''Please select a folder first'', self)
      else if \<not> ai_enabled self
      then (Warning ''Please enable AI and test connection first'', self)
      else if chat_messages self = []
      then (Warning ''Please set up rules in the AI Chat tab first'', self)
      else if \<not> askyesno then (Declined, self)
      else (Thread_started, self\<lparr>batch_threads := Suc (batch_threads self)\<rparr>))"

subsection \<open>\<open>_extract_chat_rules\<close> and \<open>_process_single_image_ai\<close>\<close>

definition extract_chat_rules :: "chat_message list \<Rightarrow> (string \<times> string) list" where
  "extract_chat_rules msgs =
     concat (map (\<lambda>msg.
       if sender msg = ''user''
       then (if \<exists>keyword \<in> set [''rule'', ''instruction'', ''always'', ''never'', ''should'',
                                      ''must'', ''format''].
                  py_in keyword (py_lower (message msg))
             then [(''user_rule'', message msg)] else [])
       else if sender msg = ''ai''
       then (if py_in ''format'' (py_lower (message msg)) \<or>
                py_in ''structure'' (py_lower (message msg))
             then [(''ai_format'', message msg)] else [])
       else []) msgs)"

text \<open>Reading the image file raises when it does not exist; a missing or empty reply and
  an empty parsed record give \<open>False\<close>; otherwise the result is that of the save. The
  prompt text built from the filename and the rules only travels to the service.\<close>

definition process_single_image_ai ::
  "environment \<Rightarrow> gui_state \<Rightarrow> string \<Rightarrow> fs \<Rightarrow> bool \<times> fs" where
  "process_single_image_ai env self image_path files =
     (case files image_path of
        None \<Rightarrow> (False, files)
      | Some file \<Rightarrow>
          (case lm_studio_reply env image_path of
             None \<Rightarrow> (False, files)
           | Some response \<Rightarrow>
               if response = [] then (False, files)
               else (let metadata_dict =
                           parse_ai_response_for_metadata (current_filename_data self) response
                     in if metadata_dict = [] then (False, files)
                        else save_metadata_to_file env self image_path metadata_dict files)))"

subsection \<open>\<open>_process_batch_ai_thread\<close>\<close>

text \<open>
  One pass of the \<open>for\<close> loop runs the \<open>try\<close> body on an image. The body either yields
  the boolean of \<open>_process_single_image_ai\<close> or an exception leaves it before a counter
  is touched (\<open>Raises\<close>); logging and the one-second sleep return normally. The loop is
  written over any per-image step \<open>proc\<close> on any world \<open>'w\<close>.
\<close>

datatype outcome = Returns bool | Raises

record counters =
  processed :: nat
  successful :: nat
  failed :: nat

definition count_outcome :: "string \<Rightarrow> outcome \<Rightarrow> counters \<times> log_entry list \<Rightarrow> counters \<times> log_entry list" where
  "count_outcome image_path result acc =
     (case acc of (c, lg) \<Rightarrow>
        (case result of
           Returns True \<Rightarrow>
             (c\<lparr>successful := successful c + 1, processed := processed c + 1\<rparr>,
              lg @ [Log_processed (basename image_path)])
         | Returns False \<Rightarrow>
             (c\<lparr>failed := failed c + 1, processed := processed c + 1\<rparr>,
              lg @ [Log_failed (basename image_path)])
         | Raises \<Rightarrow>
             (c\<lparr>failed := failed c + 1\<rparr>, lg @ [Log_error (basename image_path)])))"

fun batch_loop ::
  "(string \<Rightarrow> 'w \<Rightarrow> outcome \<times> 'w) \<Rightarrow> string list \<Rightarrow> counters \<times> log_entry list \<Rightarrow> 'w \<Rightarrow>
     (counters \<times> log_entry list) \<times> 'w" where
  "batch_loop proc [] acc w = (acc, w)"
| "batch_loop proc (image_path # rest) acc w =
     (case proc image_path w of
        (result, w') \<Rightarrow> batch_loop proc rest (count_outcome image_path result acc) w')"



text \<open>The thread body around the loop, over any per-image step.\<close>

definition process_batch_with ::
  "(string \<Rightarrow> 'w \<Rightarrow> outcome \<times> 'w) \<Rightarrow> gui_state \<Rightarrow> 'w \<Rightarrow> gui_state \<times> 'w" where
  "process_batch_with proc self w =
     (let rules = extract_chat_rules (chat_messages self);
          total_images = length (image_files self);
          start = (\<lparr>processed = 0, successful = 0, failed = 0\<rparr>,
                   log_text self @ [Log_starting, Log_rules (length rules)])
      in case batch_loop proc (image_files self) start w of
           ((c, lg), w') \<Rightarrow>
             (self\<lparr>log_text := lg @ [Log_complete,
                                       Log_results (successful c) (failed c) total_images],
                   ai_processing := False\<rparr>, w'))"


section \<open>Tool-augmented mode\<close>

subsection \<open>Numbers as text\<close>

text \<open>\<open>str(n)\<close> for an integer, \<open>int(s)\<close> for a string, \<open>c.isdigit()\<close>. \<open>int\<close> skips
  surrounding whitespace, takes one sign, and wants decimal digits in groups separated by
  single underscores; anything else raises \<open>ValueError\<close> (\<open>None\<close>). Below 256 the decimal
  digits are 0..9, and \<open>isdigit\<close> also holds for the superscripts U+00B2, U+00B3, U+00B9.\<close>

definition digit_char :: "nat \<Rightarrow> char" where
  "digit_char d = char_of (48 + d)"

function str_nat :: "nat \<Rightarrow> string" where
  "str_nat n = (if n < 10 then [digit_char n] else str_nat (n div 10) @ [digit_char (n mod 10)])"
  by pat_completeness auto
termination
  by (relation "measure (\<lambda>n. n)") auto

definition str_int :: "int \<Rightarrow> string" where
  "str_int i = (if i < 0 then CHR ''-'' # str_nat (nat (- i)) else str_nat (nat i))"

definition is_decimal :: "char \<Rightarrow> bool" where
  "is_decimal c = (48 \<le> (of_char c :: nat) \<and> (of_char c :: nat) \<le> 57)"

definition isdigit :: "char \<Rightarrow> bool" where
  "isdigit c = (is_decimal c \<or> (of_char c :: nat) \<in> {178, 179, 185})"

definition nat_of_digits :: "string \<Rightarrow> nat" where
  "nat_of_digits ds = foldl (\<lambda>acc c. 10 * acc + ((of_char c :: nat) - 48)) 0 ds"

definition py_int :: "string \<Rightarrow> int option" where
  "py_int s =
     (let t = py_strip s;
          negative = (t \<noteq> [] \<and> hd t = CHR ''-'');
          body = (if t \<noteq> [] \<and> (hd t = CHR ''-'' \<or> hd t = CHR ''+'') then tl t else t)
      in if body \<noteq> [] \<and> (\<forall>g \<in> set (py_split ''_'' body). g \<noteq> [] \<and> (\<forall>c \<in> set g. is_decimal c))
         then Some ((if negative then - 1 else 1) *
                    int (nat_of_digits (filter (\<lambda>c. c \<noteq> CHR ''_'') body)))
         else None)"

text \<open>\<open>f"{n / 1024:.1f}"\<close> for a file size of \<open>n\<close> bytes: the quotient is exact in binary
  floating point (for sizes below \<open>2^53\<close>), and the format rounds it to tenths, a tie
  to the even tenth.\<close>

definition format_kb :: "nat \<Rightarrow> string" where
  "format_kb n =
     (let q = (10 * n) div 1024; r = (10 * n) mod 1024;
          t = (if 512 < r \<or> (r = 512 \<and> odd q) then q + 1 else q)
      in str_nat (t div 10) @ ''.'' @ str_nat (t mod 10))"

subsection \<open>\<open>_tool_list_folder_contents\<close>\<close>

text \<open>\<open>getsize\<close> is \<open>os.path.getsize\<close>: the size in bytes, \<open>None\<close> where it raises. The
  tool's result is \<open>None\<close> when it raises; \<open>_execute_tool\<close> turns that into an error text.\<close>

fun list_lines :: "(string \<Rightarrow> nat option) \<Rightarrow> nat \<Rightarrow> string list \<Rightarrow> string list option" where
  "list_lines getsize i [] = Some []"
| "list_lines getsize i (img_path # rest) =
     (case getsize img_path of
        None \<Rightarrow> None
      | Some n \<Rightarrow>
          (case list_lines getsize (Suc i) rest of
             None \<Rightarrow> None
           | Some ls \<Rightarrow>
               Some ((str_nat i @ ''. '' @ basename img_path @ '' ('' @ format_kb n @ '' KB)'') # ls)))"

definition tool_list_folder_contents :: "(string \<Rightarrow> nat option) \<Rightarrow> gui_state \<Rightarrow> string option" where
  "tool_list_folder_contents getsize self =
     (if chat_folder_images self \<noteq> []
      then (let folder_name = (if chat_folder_path_str self \<noteq> []
                                then basename (chat_folder_path_str self) else ''Unknown'');
                unique_files = sort (remdups (chat_folder_images self))
            in case list_lines getsize 1 unique_files of
                 None \<Rightarrow> None
               | Some file_list \<Rightarrow>
                   Some (''Folder: '' @ folder_name @ [newline] @ ''Total files: '' @
                         str_nat (length unique_files) @ [newline, newline] @ ''Files:'' @
                         [newline] @ py_join [newline] file_list))
      else Some ''No folder loaded. Please select a folder first.'')"

subsection \<open>\<open>_analyze_tool_results_and_respond\<close>\<close>

text \<open>
  A Python float is a number or the value \<open>nan\<close>, which \<open>float\<close> returns for the text
  \<open>nan\<close>. The numbers are any linearly ordered type with a zero (the size the router
  stores when \<open>float\<close> fails); the infinities are its least and greatest elements when it
  has them. A comparison with \<open>nan\<close> on either side is false.
  \<open>float(s)\<close> and the format \<open>:.1f\<close> are parameters of the router: \<open>py_float\<close> gives the
  float a text denotes, \<open>None\<close> where \<open>float\<close> raises \<open>ValueError\<close>, and \<open>fmt\<close> prints a
  float with one decimal.
\<close>

datatype 'a pyfloat = Number 'a | NaN

definition float_lt :: "'a::linorder pyfloat \<Rightarrow> 'a pyfloat \<Rightarrow> bool" where
  "float_lt x y =
     (case x of NaN \<Rightarrow> False | Number a \<Rightarrow> (case y of NaN \<Rightarrow> False | Number b \<Rightarrow> a < b))"

text \<open>\<open>max(xs, key=key)\<close> and \<open>min(xs, key=key)\<close> with float keys, on a list with first
  element \<open>x\<close>: \<open>max\<close> replaces its candidate by an item whose key is greater than the
  candidate's, \<open>min\<close> by one whose key is less.\<close>

definition py_max_float :: "('e \<Rightarrow> 'a::linorder pyfloat) \<Rightarrow> 'e \<Rightarrow> 'e list \<Rightarrow> 'e" where
  "py_max_float key x xs = foldl (\<lambda>best y. if float_lt (key best) (key y) then y else best) x xs"

definition py_min_float :: "('e \<Rightarrow> 'a::linorder pyfloat) \<Rightarrow> 'e \<Rightarrow> 'e list \<Rightarrow> 'e" where
  "py_min_float key x xs = foldl (\<lambda>best y. if float_lt (key y) (key best) then y else best) x xs"

text \<open>\<open>line.split('.', 1)\<close>: at most one cut, at the first dot.\<close>

definition split_once :: "char \<Rightarrow> string \<Rightarrow> string list" where
  "split_once c s =
     (if c \<in> set s then [takeWhile (\<lambda>x. x \<noteq> c) s, tl (dropWhile (\<lambda>x. x \<noteq> c) s)] else [s])"

definition parse_file_line ::
  "(string \<Rightarrow> 'a pyfloat option) \<Rightarrow> string \<Rightarrow> (string \<times> 'a::{linorder,zero} pyfloat) list \<Rightarrow>
     (string \<times> 'a pyfloat) list" where
  "parse_file_line py_float line files =
     (let parts = split_once CHR ''.'' line
      in if 1 < length parts
         then (let file_info = py_strip (parts ! 1)
               in if py_in '' ('' file_info \<and> py_in '' KB)'' file_info
                  then (let filename = py_split '' ('' file_info ! 0;
                            size_str = py_replace '' KB)'' [] (py_split '' ('' file_info ! 1)
                        in case py_float size_str of
                             Some sz \<Rightarrow> files @ [(filename, sz)]
                           | None \<Rightarrow> files @ [(file_info, Number 0)])
                  else files)
         else files)"

text \<open>One pass of the loop over the report's lines; \<open>None\<close> when \<open>int\<close> raises, which
  ends the function in its \<open>except\<close> branch.\<close>

definition parse_line ::
  "(string \<Rightarrow> 'a pyfloat option) \<Rightarrow> string \<times> int \<times> (string \<times> 'a::{linorder,zero} pyfloat) list \<Rightarrow>
     string \<Rightarrow> (string \<times> int \<times> (string \<times> 'a pyfloat) list) option" where
  "parse_line py_float st line =
     (case st of (folder_name, total_files, files) \<Rightarrow>
        if prefix ''Folder:'' line
        then Some (py_strip (py_replace ''Folder:'' [] line), total_files, files)
        else if prefix ''Total files:'' line
        then (case py_int (py_strip (py_replace ''Total files:'' [] line)) of
                None \<Rightarrow> None
              | Some n \<Rightarrow> Some (folder_name, n, files))
        else if py_strip line \<noteq> [] \<and> isdigit (hd line)
        then Some (folder_name, total_files, parse_file_line py_float line files)
        else Some st)"

fun parse_lines ::
  "(string \<Rightarrow> 'a pyfloat option) \<Rightarrow> string \<times> int \<times> (string \<times> 'a::{linorder,zero} pyfloat) list \<Rightarrow>
     string list \<Rightarrow> (string \<times> int \<times> (string \<times> 'a pyfloat) list) option" where
  "parse_lines py_float st [] = Some st"
| "parse_lines py_float st (line # lines) =
     (case parse_line py_float st line of
        None \<Rightarrow> None
      | Some st' \<Rightarrow> parse_lines py_float st' lines)"

definition parse_folder_data ::
  "(string \<Rightarrow> 'a pyfloat option) \<Rightarrow> string \<Rightarrow>
     (string \<times> int \<times> (string \<times> 'a::{linorder,zero} pyfloat) list) option" where
  "parse_folder_data py_float folder_data =
     parse_lines py_float (''Unknown'', 0, []) (py_split [newline] folder_data)"

definition quoted :: "string \<Rightarrow> string" where
  "quoted s = [CHR 0x27] @ s @ [CHR 0x27]"

definition duplicates_answer :: "string \<Rightarrow> int \<Rightarrow> string list \<Rightarrow> string" where
  "duplicates_answer folder_name total_files filenames =
     (let unique_filenames = remdups filenames
      in if length filenames = length unique_filenames
         then ''No, there are no duplicate files in the '' @ quoted folder_name @
              '' folder. All '' @ str_int total_files @ '' files have unique names.''
         else ''Yes, there are '' @ str_nat (length filenames - length unique_filenames) @
              '' duplicate files in the '' @ quoted folder_name @
              '' folder. The folder contains '' @ str_nat (length unique_filenames) @
              '' unique files out of '' @ str_int total_files @ '' total files.'')"

definition extreme_answer :: "('f \<Rightarrow> string) \<Rightarrow> string \<Rightarrow> string \<Rightarrow> string \<times> 'f \<Rightarrow> string" where
  "extreme_answer fmt which folder_name file =
     ''The '' @ which @ '' file in the '' @ quoted folder_name @ '' folder is '' @
     quoted (fst file) @ '' at '' @ fmt (snd file) @ '' KB.''"

fun listing_lines :: "('f \<Rightarrow> string) \<Rightarrow> nat \<Rightarrow> (string \<times> 'f) list \<Rightarrow> string" where
  "listing_lines fmt i [] = []"
| "listing_lines fmt i (file_info # rest) =
     str_nat i @ ''. '' @ fst file_info @ '' ('' @ fmt (snd file_info) @ '' KB)'' @ [newline] @
     listing_lines fmt (Suc i) rest"

definition count_answer :: "string \<Rightarrow> int \<Rightarrow> string" where
  "count_answer folder_name total_files =
     ''The '' @ quoted folder_name @ '' folder contains '' @ str_int total_files @ '' files.''"

text \<open>The \<open>if\<close>/\<open>elif\<close> chain over the lower-cased question, in the source's order.\<close>

definition respond ::
  "('a pyfloat \<Rightarrow> string) \<Rightarrow> string \<Rightarrow> string \<Rightarrow> int \<Rightarrow> (string \<times> 'a::{linorder,zero} pyfloat) list \<Rightarrow>
     string \<Rightarrow> string" where
  "respond fmt user_lower folder_name total_files files folder_data =
     (if py_in ''duplicate'' user_lower
      then duplicates_answer folder_name total_files (map fst files)
      else if py_in ''largest'' user_lower \<or> py_in ''biggest'' user_lower
      then (case files of
              [] \<Rightarrow> ''No files found to analyze.''
            | f # fs \<Rightarrow> extreme_answer fmt ''largest'' folder_name (py_max_float snd f fs))
      else if py_in ''smallest'' user_lower
      then (case files of
              [] \<Rightarrow> ''No files found to analyze.''
            | f # fs \<Rightarrow> extreme_answer fmt ''smallest'' folder_name (py_min_float snd f fs))
      else if py_in ''list'' user_lower \<or> py_in ''files'' user_lower
      then ''The '' @ quoted folder_name @ '' folder contains '' @ str_int total_files @
           '' files:'' @ [newline, newline] @ listing_lines fmt 1 files
      else if py_in ''count'' user_lower \<or> py_in ''how many'' user_lower
      then count_answer folder_name total_files
      else ''The '' @ quoted folder_name @ '' folder contains '' @ str_int total_files @
           '' files. Here are the details:'' @ [newline, newline] @ folder_data)"

text \<open>The functions return a text in every case; \<open>Analysis_error\<close> stands for the text
  \<open>Error analyzing tool results: ...\<close> of the router's \<open>except\<close> branch and
  \<open>Processing_error\<close> for \<open>Error processing tools: ...\<close> of its caller's.\<close>

datatype answer = Answer string | Analysis_error | Processing_error

definition no_folder_data :: string where
  "no_folder_data = ''Tool execution completed but no folder data was returned.''"

definition analyze_tool_results_and_respond ::
  "(string \<Rightarrow> 'a pyfloat option) \<Rightarrow> ('a::{linorder,zero} pyfloat \<Rightarrow> string) \<Rightarrow> string \<Rightarrow> string list \<Rightarrow>
     answer" where
  "analyze_tool_results_and_respond py_float fmt user_message tool_results =
     (case find (\<lambda>result. py_in ''Folder:'' result \<and> py_in ''Total files:'' result) tool_results of
        None \<Rightarrow> Answer no_folder_data
      | Some folder_data \<Rightarrow>
          (case parse_folder_data py_float folder_data of
             None \<Rightarrow> Analysis_error
           | Some (folder_name, total_files, files) \<Rightarrow>
               Answer (respond fmt (py_lower user_message) folder_name total_files files
                         folder_data)))"

subsection \<open>\<open>_process_tool_calls\<close>\<close>

text \<open>
  A message is a role with its content. A requested tool call carries the function name and
  its arguments, \<open>None\<close> when \<open>json.loads\<close> raises on them, else their \<open>str\<close> text (the
  key under which a repeated call is skipped). \<open>execute\<close> is the method \<open>_execute_tool\<close>.
  The function takes no model client: after the tools have run the answer is computed from
  the messages alone.
\<close>

datatype role = Role_system | Role_user | Role_assistant | Role_tool

fun run_tool_calls ::
  "(string \<Rightarrow> string \<Rightarrow> string) \<Rightarrow> (string \<times> string option) list \<Rightarrow> string list \<Rightarrow>
     (role \<times> string) list \<Rightarrow> (role \<times> string) list option" where
  "run_tool_calls execute [] executed_tools messages = Some messages"
| "run_tool_calls execute ((function_name, arguments) # rest) executed_tools messages =
     (case arguments of
        None \<Rightarrow> None
      | Some function_args \<Rightarrow>
          (let tool_key = function_name @ ''_'' @ function_args
           in if tool_key \<in> set executed_tools
              then run_tool_calls execute rest executed_tools messages
              else run_tool_calls execute rest (tool_key # executed_tools)
                     (messages @ [(Role_tool, execute function_name function_args)])))"

definition original_question :: "(role \<times> string) list \<Rightarrow> string" where
  "original_question messages =
     (case find (\<lambda>msg. fst msg = Role_user \<and>
                        \<not> prefix ''Please provide a clear response'' (snd msg)) messages of
        None \<Rightarrow> []
      | Some msg \<Rightarrow> snd msg)"

definition process_tool_calls ::
  "(string \<Rightarrow> 'a pyfloat option) \<Rightarrow> ('a::{linorder,zero} pyfloat \<Rightarrow> string) \<Rightarrow>
     (string \<Rightarrow> string \<Rightarrow> string) \<Rightarrow> (string \<times> string option) list \<Rightarrow> (role \<times> string) list \<Rightarrow>
     answer" where
  "process_tool_calls py_float fmt execute tool_calls messages =
     (case run_tool_calls execute tool_calls [] (messages @ [(Role_assistant, [])]) of
        None \<Rightarrow> Processing_error
      | Some messages' \<Rightarrow>
          (let tool_results = map snd (filter (\<lambda>msg. fst msg = Role_tool) messages')
           in if tool_results \<noteq> []
              then analyze_tool_results_and_respond py_float fmt
                     (original_question messages') tool_results
              else Answer ''Tool execution completed but no results were returned.''))"

subsection \<open>Shape of the listing report\<close>

text \<open>A report line for a file name, as \<open>_tool_list_folder_contents\<close> writes it.\<close>

definition file_line :: "string \<Rightarrow> string \<Rightarrow> string \<Rightarrow> bool" where
  "file_line name sz l = (\<exists>k. l = str_nat k @ ''. '' @ name @ '' ('' @ sz @ '' KB)'')"

text \<open>The name under which the router's line parser records a listed file, told from the
  file's name and its size text. A name that is all whitespace is not recorded. The name
  without its leading whitespace is cut before its first blank and opening parenthesis
  when the text that follows them reads as a number (the size text itself when the name
  has no such pair); when it does not, the whole entry is recorded as the name.\<close>

definition recorded_name :: "(string \<Rightarrow> 'a pyfloat option) \<Rightarrow> string \<Rightarrow> string \<Rightarrow> string option" where
  "recorded_name py_float name sz =
     (let shown = dropWhile isspace name;
          size_text = (if py_in '' ('' shown
                       then py_replace '' KB)'' [] (py_split '' ('' shown ! 1) else sz)
      in if shown = [] then None
         else if py_float size_text = None then Some (shown @ '' ('' @ sz @ '' KB)'')
         else Some (hd (py_split '' ('' shown)))"

text \<open>The names recorded for the images of a folder, in the order of the report.\<close>

definition recorded_names ::
  "(string \<Rightarrow> 'a pyfloat option) \<Rightarrow> (string \<Rightarrow> nat option) \<Rightarrow> string list \<Rightarrow> string list" where
  "recorded_names py_float getsize images =
     List.map_filter
       (\<lambda>img_path. case getsize img_path of
                      None \<Rightarrow> None
                    | Some n \<Rightarrow> recorded_name py_float (basename img_path) (format_kb n))
       (sort (remdups images))"

section \<open>Concrete inputs used below\<close>

text \<open>A state in which a batch run is active, an environment in which \<open>image.save\<close> raises
  after truncating its target, and a small photo.\<close>

definition running_state :: gui_state where
  "running_state =
     init_state\<lparr>batch_folder := Some ''/photos'', ai_enabled := True,
                chat_messages := [\<lparr>sender = ''user'', message = ''always use title case''\<rparr>],
                image_files := [''/photos/a.jpg''],
                ai_processing := True, batch_threads := 1\<rparr>"

definition crash_env :: environment where
  "crash_env =
     \<lparr>save_event_at = (\<lambda>p. Raises_during_write (Damaged [])),
      exif_block_len = (\<lambda>exif. 0), recompress = (\<lambda>d. d),
      run_tool = (\<lambda>cmd fl. None), lm_studio_reply = (\<lambda>p. None)\<rparr>"

definition photo :: image_file where
  "photo = \<lparr>exif_0th = Map.empty, image_data = [0xFF, 0xD8]\<rparr>"

text \<open>The response of the specification's example, and a reply in plain prose.\<close>

definition example_response :: string where
  "example_response = ''Title: Modern Oak Kitchen'' @ [newline] @ ''Make: F032''"

definition prose_response :: string where
  "prose_response = ''modern kitchen''"

text \<open>An ExifTool that is installed under its plain name. It answers the version query
  with status 0. On any other command line it takes each argument that does not begin with
  a dash as a file to work on; given no argument of the form \<open>-TAG=VALUE\<close> it writes to no
  file, and it ends with status 1 when one of the files does not exist. Writes of the
  imaging libraries complete, and an EXIF block takes 512 bytes.\<close>

definition exiftool_run :: "string list \<Rightarrow> fs \<Rightarrow> (int \<times> fs) option" where
  "exiftool_run cmd fl =
     (if cmd = [] \<or> hd cmd \<noteq> ''exiftool'' then None
      else if tl cmd = [''-ver''] then Some (0, fl)
      else Some (if list_all (\<lambda>arg. prefix ''-'' arg \<or> fl arg \<noteq> None) (tl cmd) then 0 else 1, fl))"

definition calm_env :: environment where
  "calm_env =
     \<lparr>save_event_at = (\<lambda>p. Completes), exif_block_len = (\<lambda>exif. 512), recompress = (\<lambda>d. d),
      run_tool = exiftool_run, lm_studio_reply = (\<lambda>p. Some example_response)\<rparr>"

text \<open>The same with a photo whose EXIF block is at the limit of the marker segment once
  a tag is added.\<close>

definition full_exif_env :: environment where
  "full_exif_env = calm_env\<lparr>exif_block_len := (\<lambda>exif. 65534)\<rparr>"






text \<open>A reading of \<open>float\<close> and of \<open>:.1f\<close> for the examples: numbers are counted in
  tenths. The texts read are \<open>nan\<close> and digits with at most one digit after a dot, which
  is what the listing tool writes; on those \<open>float\<close> followed by \<open>:.1f\<close> gives the text
  back.\<close>

definition float_tenths :: "string \<Rightarrow> nat pyfloat option" where
  "float_tenths s =
     (let t = py_strip s; w = takeWhile (\<lambda>x. x \<noteq> CHR ''.'') t; d = dropWhile (\<lambda>x. x \<noteq> CHR ''.'') t
      in if py_lower t = ''nan'' then Some NaN
         else if w \<noteq> [] \<and> (\<forall>c \<in> set w. is_decimal c) \<and>
                 (d = [] \<or> (length d = 2 \<and> is_decimal (d ! 1)))
         then Some (Number (10 * nat_of_digits w + nat_of_digits (drop 1 d)))
         else None)"

definition fmt_tenths :: "nat pyfloat \<Rightarrow> string" where
  "fmt_tenths x =
     (case x of NaN \<Rightarrow> ''nan'' | Number t \<Rightarrow> str_nat (t div 10) @ ''.'' @ str_nat (t mod 10))"

text \<open>Folders: two images that differ by a leading blank; an image next to a copy named
  by the file manager; and that folder with a second copy.\<close>

definition blank_name_state :: gui_state where
  "blank_name_state =
     init_state\<lparr>chat_folder_images := [''/p/a.jpg'', ''/p/ a.jpg''], chat_folder_path_str := ''/p''\<rparr>"

definition copy_state :: gui_state where
  "copy_state =
     init_state\<lparr>chat_folder_images := [''/p/a.jpg'', ''/p/photo (1).jpg''],
                chat_folder_path_str := ''/p''\<rparr>"

definition copies_state :: gui_state where
  "copies_state =
     init_state\<lparr>chat_folder_images := [''/p/a.jpg'', ''/p/photo (1).jpg'', ''/p/photo (2).jpg''],
                chat_folder_path_str := ''/p''\<rparr>"

text \<open>File sizes: every file has 2048 bytes; or the copies have 512000 bytes and every
  other file 1024.\<close>

definition two_kb :: "string \<Rightarrow> nat option" where
  "two_kb img_path = Some 2048"

definition big_copies :: "string \<Rightarrow> nat option" where
  "big_copies img_path = Some (if prefix ''/p/photo'' img_path then 512000 else 1024)"

text \<open>The reports the listing tool writes for these folders.\<close>

definition blank_name_report :: string where
  "blank_name_report =
     ''Folder: p'' @ [newline] @ ''Total files: 2'' @ [newline, newline] @ ''Files:'' @ [newline] @
     ''1.  a.jpg (2.0 KB)'' @ [newline] @ ''2. a.jpg (2.0 KB)''"

definition copy_report :: string where
  "copy_report =
     ''Folder: p'' @ [newline] @ ''Total files: 2'' @ [newline, newline] @ ''Files:'' @ [newline] @
     ''1. a.jpg (1.0 KB)'' @ [newline] @ ''2. photo (1).jpg (500.0 KB)''"

text \<open>The tool dispatcher \<open>_execute_tool\<close> when the listing tool is the one asked for.\<close>

definition execute_listing :: "(string \<Rightarrow> nat option) \<Rightarrow> gui_state \<Rightarrow> string \<Rightarrow> string \<Rightarrow> string" where
  "execute_listing getsize self function_name args =
     (if function_name = ''list_folder_contents''
      then (case tool_list_folder_contents getsize self of
              None \<Rightarrow> ''Tool execution error''
            | Some report \<Rightarrow> report)
      else ''Unknown tool: '' @ function_name)"

section \<open>Verified properties\<close>

text \<open>Unfolding these evaluates the character predicates on literals.\<close>

lemmas text_eval =
  lower_char_def char_of_def bit_Suc_0_iff isspace_def newline_def py_lower_def py_strip_def

subsection \<open>Python text primitives: splitting\<close>

lemma py_split_no_sep: "c \<notin> set t \<Longrightarrow> py_split [c] t = [t]"
  by (induction t) auto

lemma py_split_token: "c \<notin> set t \<Longrightarrow> py_split [c] (t @ c # rest) = t # py_split [c] rest"
  by (induction t) auto

subsection \<open>Filename convention\<close>

lemma py_split_tokens:
  "ts \<noteq> [] \<Longrightarrow> \<forall>t \<in> set ts. c \<notin> set t \<Longrightarrow> py_split [c] (py_join [c] ts) = ts"
proof (induction ts)
  case Nil
  then show ?case by simp
next
  case (Cons t ts)
  show ?case
  proof (cases ts)
    case Nil
    with Cons.prems show ?thesis by (simp add: py_split_no_sep)
  next
    case (Cons y ys)
    with Cons.prems Cons.IH show ?thesis by (simp add: py_split_token)
  qed
qed

lemma py_join_avoids:
  "\<forall>t \<in> set ts. c \<notin> set t \<Longrightarrow> c \<notin> set sep \<Longrightarrow> c \<notin> set (py_join sep ts)"
proof (induction ts)
  case Nil
  then show ?case by simp
next
  case (Cons t ts)
  then show ?case by (cases ts) auto
qed

lemma rfind_char_absent: "c \<notin> set s \<Longrightarrow> rfind_char c s = None"
  by (induction s) auto

lemma rfind_char_last:
  "c \<notin> set ext \<Longrightarrow> rfind_char c (stem @ c # ext) = Some (length stem)"
  by (induction stem) (simp_all add: rfind_char_absent)

lemma path_name_plain:
  "CHR ''/'' \<notin> set n \<Longrightarrow> n \<noteq> [] \<Longrightarrow> n \<noteq> ''.'' \<Longrightarrow> path_name n = n"
  by (simp add: path_name_def py_split_no_sep)

lemma path_stem_ext:
  assumes "stem \<noteq> []" and "CHR ''/'' \<notin> set stem" and "ext \<noteq> []"
    and "CHR ''.'' \<notin> set ext" and "CHR ''/'' \<notin> set ext"
  shows "path_stem (stem @ ''.'' @ ext) = stem"
proof -
  have n: "path_name (stem @ ''.'' @ ext) = stem @ ''.'' @ ext"
    using assms by (intro path_name_plain) (auto simp: append_eq_Cons_conv)
  have r: "rfind_char CHR ''.'' (stem @ ''.'' @ ext) = Some (length stem)"
    using rfind_char_last [OF assms(4), of stem] by simp
  show ?thesis
    using assms(1,3) n r by (simp add: path_stem_def)
qed

lemma path_stem_plain:
  assumes "CHR ''/'' \<notin> set stem" and "CHR ''.'' \<notin> set stem"
  shows "path_stem stem = stem"
proof (cases "stem = []")
  case True
  then show ?thesis by (simp add: path_stem_def path_name_def)
next
  case False
  have "stem \<noteq> ''.''" using assms(2) by auto
  with False assms have n: "path_name stem = stem" by (intro path_name_plain)
  show ?thesis
    using assms(2) by (simp add: path_stem_def n rfind_char_absent)
qed

text \<open>
  C8. For every filename made of underscore-separated tokens, with or without an extension
  after them (the text after the last dot): the extension is not part of the tokens; when
  there are at least six tokens, code, type, color, name and category are tokens 0 to 4;
  with fewer than six tokens all five are the empty string.
\<close>

theorem parse_filename_data_positions:
  assumes tokens: "tokens \<noteq> []" "\<forall>t \<in> set tokens. CHR ''_'' \<notin> set t \<and> CHR ''/'' \<notin> set t"
    and name: "(filename = py_join ''_'' tokens \<and> (\<forall>t \<in> set tokens. CHR ''.'' \<notin> set t)) \<or>
               (filename = py_join ''_'' tokens @ ''.'' @ ext \<and> py_join ''_'' tokens \<noteq> [] \<and>
                ext \<noteq> [] \<and> CHR ''.'' \<notin> set ext \<and> CHR ''/'' \<notin> set ext)"
  shows "(6 \<le> length tokens \<longrightarrow>
      parse_filename_data filename ''code'' = Some (tokens ! 0) \<and>
      parse_filename_data filename ''type'' = Some (tokens ! 1) \<and>
      parse_filename_data filename ''color'' = Some (tokens ! 2) \<and>
      parse_filename_data filename ''name'' = Some (tokens ! 3) \<and>
      parse_filename_data filename ''category'' = Some (tokens ! 4)) \<and>
   (length tokens < 6 \<longrightarrow>
      parse_filename_data filename ''code'' = Some [] \<and>
      parse_filename_data filename ''type'' = Some [] \<and>
      parse_filename_data filename ''color'' = Some [] \<and>
      parse_filename_data filename ''name'' = Some [] \<and>
      parse_filename_data filename ''category'' = Some [])"
proof -
  have slash: "CHR ''/'' \<notin> set (py_join ''_'' tokens)"
    using tokens(2) by (intro py_join_avoids) auto
  have "path_stem filename = py_join ''_'' tokens"
    using name
  proof
    assume plain: "filename = py_join ''_'' tokens \<and> (\<forall>t \<in> set tokens. CHR ''.'' \<notin> set t)"
    then have "CHR ''.'' \<notin> set (py_join ''_'' tokens)"
      by (intro py_join_avoids) auto
    with slash plain show ?thesis
      by (simp add: path_stem_plain)
  next
    assume "filename = py_join ''_'' tokens @ ''.'' @ ext \<and> py_join ''_'' tokens \<noteq> [] \<and>
                ext \<noteq> [] \<and> CHR ''.'' \<notin> set ext \<and> CHR ''/'' \<notin> set ext"
    with slash show ?thesis
      using path_stem_ext [of "py_join ''_'' tokens" ext] by simp
  qed
  moreover have "py_split ''_'' (py_join ''_'' tokens) = tokens"
    using tokens by (intro py_split_tokens) auto
  ultimately have "py_split ''_'' (path_stem filename) = tokens"
    by simp
  then show ?thesis
    by (simp add: parse_filename_data_def Let_def)
qed

theorem parse_filename_data_positions_witness:
  "parse_filename_data ''F032_ST78_Grey_Cascia_Granite_room_images_000.jpg'' ''code'' = Some ''F032'' \<and>
   parse_filename_data ''F032_ST78_Grey_Cascia_Granite_room_images_000.jpg'' ''type'' = Some ''ST78'' \<and>
   parse_filename_data ''F032_ST78_Grey_Cascia_Granite_room_images_000.jpg'' ''color'' = Some ''Grey'' \<and>
   parse_filename_data ''F032_ST78_Grey_Cascia_Granite_room_images_000.jpg'' ''name'' = Some ''Cascia'' \<and>
   parse_filename_data ''F032_ST78_Grey_Cascia_Granite_room_images_000.jpg'' ''category'' = Some ''Granite'' \<and>
   parse_filename_data ''a_b_c_d_e.x_y'' ''code'' = Some [] \<and>
   parse_filename_data ''a_b_c_d_e.x_y'' ''type'' = Some [] \<and>
   parse_filename_data ''a_b_c_d_e.x_y'' ''color'' = Some [] \<and>
   parse_filename_data ''a_b_c_d_e.x_y'' ''name'' = Some [] \<and>
   parse_filename_data ''a_b_c_d_e.x_y'' ''category'' = Some [] \<and>
   parse_filename_data ''F032_ST78_Grey_Cascia_Granite_room'' ''category'' = Some ''Granite''"
  using parse_filename_data_positions
      [of "[''F032'', ''ST78'', ''Grey'', ''Cascia'', ''Granite'', ''room'', ''images'', ''000'']"
          "''F032_ST78_Grey_Cascia_Granite_room_images_000.jpg''" "''jpg''"]
    parse_filename_data_positions
      [of "[''a'', ''b'', ''c'', ''d'', ''e'']" "''a_b_c_d_e.x_y''" "''x_y''"]
    parse_filename_data_positions
      [of "[''F032'', ''ST78'', ''Grey'', ''Cascia'', ''Granite'', ''room'']"
          "''F032_ST78_Grey_Cascia_Granite_room''" "[]"]
  by simp

subsection \<open>Response parser\<close>

lemma after_ws_colon_none: "CHR '':'' \<notin> set s \<Longrightarrow> after_ws_colon s = None"
  by (induction s) auto

lemma match_field_at_none: "CHR '':'' \<notin> set t \<Longrightarrow> match_field_at kw t = None"
proof -
  assume a: "CHR '':'' \<notin> set t"
  have "CHR '':'' \<notin> set (drop (length kw) t)"
    using a by (meson in_set_dropD)
  then show ?thesis
    by (simp add: match_field_at_def after_ws_colon_none)
qed

lemma re_search_field_none: "CHR '':'' \<notin> set s \<Longrightarrow> re_search_field kw s = None"
proof (induction s)
  case Nil
  then show ?case by simp
next
  case (Cons c cs)
  then have "match_field_at kw (c # cs) = None"
    by (intro match_field_at_none) simp
  with Cons show ?case by simp
qed

lemma hd_dropWhile_in_set: "dropWhile P xs = y # ys \<Longrightarrow> y \<in> set xs"
  by (metis list.set_intros(1) set_dropWhileD)

lemma match_quoted_at_none:
  assumes "CHR '':'' \<notin> set t" and "CHR ''='' \<notin> set t"
  shows "match_quoted_at kw t = None"
proof (cases "starts_with_ci kw t")
  case False
  then show ?thesis by (simp add: match_quoted_at_def)
next
  case True
  define r1 where "r1 = drop (length kw) t"
  define r2 where "r2 = (case r1 of [] \<Rightarrow> [] | c # cs \<Rightarrow> if is_quote c then cs else r1)"
  define d where "d = dropWhile isspace r2"
  have s1: "set r1 \<subseteq> set t"
    unfolding r1_def by (simp add: set_drop_subset)
  have s2: "set r2 \<subseteq> set r1"
    unfolding r2_def by (auto split: list.splits)
  have s3: "set d \<subseteq> set r2"
    unfolding d_def by (auto dest: set_dropWhileD)
  have "case d of [] \<Rightarrow> True | c # r3 \<Rightarrow> c \<noteq> CHR '':'' \<and> c \<noteq> CHR ''=''"
    using s1 s2 s3 assms by (cases d) auto
  then show ?thesis
    unfolding match_quoted_at_def Let_def r1_def[symmetric] r2_def[symmetric] d_def[symmetric]
    using True by (cases d) simp_all
qed

lemma re_search_quoted_none:
  "CHR '':'' \<notin> set s \<Longrightarrow> CHR ''='' \<notin> set s \<Longrightarrow> re_search_quoted kw s = None"
proof (induction s)
  case Nil
  then show ?case by simp
next
  case (Cons c cs)
  then have "match_quoted_at kw (c # cs) = None"
    by (intro match_quoted_at_none) simp_all
  with Cons show ?case by simp
qed

lemma starts_with_ci_prefix: "starts_with_ci kw t \<Longrightarrow> prefix kw (py_lower t)"
  unfolding starts_with_ci_def py_lower_def
  by (metis take_is_prefix take_map)

lemma py_in_lower_Cons: "py_in kw (py_lower cs) \<Longrightarrow> py_in kw (py_lower (c # cs))"
  by (simp add: py_lower_def)

lemma re_search_title_tag_none:
  "\<not> py_in ''<title>'' (py_lower s) \<Longrightarrow> re_search_title_tag s = None"
proof (induction s)
  case Nil
  then show ?case by simp
next
  case (Cons c cs)
  have "\<not> starts_with_ci ''<title>'' (c # cs)"
    using Cons.prems starts_with_ci_prefix [of "''<title>''" "c # cs"]
    by (auto simp: py_lower_def)
  then have "match_title_tag_at (c # cs) = None"
    by (simp add: match_title_tag_at_def)
  moreover have "\<not> py_in ''<title>'' (py_lower cs)"
    using Cons.prems by (auto simp: py_lower_def)
  ultimately show ?case using Cons.IH by simp
qed

lemma find_structured_none:
  "CHR '':'' \<notin> set s \<Longrightarrow> CHR ''='' \<notin> set s \<Longrightarrow> find_structured kw [a, b, c] s = None"
  by (simp add: find_structured_def re_search_field_none re_search_quoted_none)

lemma find_title_none:
  "CHR '':'' \<notin> set s \<Longrightarrow> CHR ''='' \<notin> set s \<Longrightarrow> \<not> py_in ''<title>'' (py_lower s) \<Longrightarrow> find_title s = None"
  by (simp add: find_title_def re_search_field_none re_search_quoted_none re_search_title_tag_none)

lemma find_description_none:
  "\<forall>l \<in> set (py_split [newline] s). length (py_strip l) \<le> 20 \<Longrightarrow> find_description s = None"
proof -
  assume a: "\<forall>l \<in> set (py_split [newline] s). length (py_strip l) \<le> 20"
  have "description_parts s = []"
    unfolding description_parts_def using a by (auto simp: filter_empty_conv)
  then show ?thesis by (simp add: find_description_def)
qed

lemma keyword_indicators_lower: "k \<in> set keyword_indicators \<Longrightarrow> py_lower k = k"
  by (auto simp: keyword_indicators_def text_eval)

lemma find_keywords_none:
  "\<forall>k \<in> set keyword_indicators. \<not> py_in k (py_lower s) \<Longrightarrow> find_keywords s = None"
  by (simp add: find_keywords_def filter_empty_conv keyword_indicators_lower)

lemma parse_empty_record:
  assumes "CHR '':'' \<notin> set s" "CHR ''='' \<notin> set s" "\<not> py_in ''<title>'' (py_lower s)"
    "\<forall>l \<in> set (py_split [newline] s). length (py_strip l) \<le> 20"
    "\<forall>k \<in> set keyword_indicators. \<not> py_in k (py_lower s)"
    "\<not> py_in ''egger'' (py_lower s)"
  shows "parse_ai_response_for_metadata None s = []"
  using assms
  by (simp add: parse_ai_response_for_metadata_def find_structured_none find_title_none
      find_description_none find_keywords_none set_if_def from_filename_context_def)

lemma ex_description: "find_description example_response = Some ''Title: Modern Oak Kitchen''"
  by (simp add: example_response_def find_description_def description_parts_def py_max_by_def text_eval)

lemma ex_keywords: "find_keywords example_response = Some ''kitchen, modern''"
  by (simp add: example_response_def find_keywords_def keyword_indicators_def text_eval)

lemma ex_title: "find_title example_response = Some ''Modern Oak Kitchen''"
  by (simp add: example_response_def find_title_def match_field_at_def starts_with_ci_def text_eval)

lemma ex_artist: "find_structured ''artist'' [''artist'', ''company'', ''brand''] example_response = None"
  by (simp add: example_response_def find_structured_def match_field_at_def match_quoted_at_def starts_with_ci_def text_eval)

lemma ex_make: "find_structured ''make'' [''make'', ''product code'', ''code''] example_response = Some ''F032''"
  by (simp add: example_response_def find_structured_def match_field_at_def match_quoted_at_def starts_with_ci_def text_eval)

lemma ex_model: "find_structured ''model'' [''model'', ''type'', ''product type''] example_response = None"
  by (simp add: example_response_def find_structured_def match_field_at_def match_quoted_at_def starts_with_ci_def text_eval)

lemma ex_egger: "\<not> py_in ''egger'' (py_lower example_response)"
  by (simp add: example_response_def text_eval)

lemma example_response_parsed: "parse_ai_response_for_metadata None example_response =
   [(''Description'', ''Title: Modern Oak Kitchen''), (''Keywords'', ''kitchen, modern''),
    (''Title'', ''Modern Oak Kitchen''), (''Make'', ''F032'')]"
  by (simp add: parse_ai_response_for_metadata_def ex_description ex_keywords ex_title ex_artist
      ex_make ex_model ex_egger set_if_def from_filename_context_def dict_get_falsy_def)

lemma prose_response_parsed:
  "parse_ai_response_for_metadata None prose_response = [(''Keywords'', ''kitchen, modern'')]"
proof -
  have c: "CHR '':'' \<notin> set prose_response" "CHR ''='' \<notin> set prose_response"
    by (simp_all add: prose_response_def)
  have t: "\<not> py_in ''<title>'' (py_lower prose_response)"
    by (simp add: prose_response_def text_eval)
  have d: "find_description prose_response = None"
    by (simp add: prose_response_def find_description_def description_parts_def text_eval)
  have k: "find_keywords prose_response = Some ''kitchen, modern''"
    by (simp add: prose_response_def find_keywords_def keyword_indicators_def text_eval)
  have e: "\<not> py_in ''egger'' (py_lower prose_response)"
    by (simp add: prose_response_def text_eval)
  show ?thesis
    by (simp add: parse_ai_response_for_metadata_def d k e c t find_title_none
        find_structured_none set_if_def from_filename_context_def dict_get_falsy_def)
qed

text \<open>
  C5, as stated, fails twice. On the example response the parser also fills Description
  (the longest line over 20 characters, here the title line itself) and Keywords (the
  whitelist words \<open>kitchen\<close> and \<open>modern\<close> occur), so the record has four keys, not two.
  And a response without any colon is not always parsed to the empty record: the prose
  reply \<open>modern kitchen\<close> yields Keywords.
\<close>

theorem parse_example_counterexample:
  "map_of (parse_ai_response_for_metadata None example_response) ''Description'' =
     Some ''Title: Modern Oak Kitchen'' \<and>
   map_of (parse_ai_response_for_metadata None example_response) ''Keywords'' =
     Some ''kitchen, modern'' \<and>
   set (parse_ai_response_for_metadata None example_response) \<noteq>
     {(''Title'', ''Modern Oak Kitchen''), (''Make'', ''F032'')} \<and>
   CHR '':'' \<notin> set prose_response \<and>
   parse_ai_response_for_metadata None prose_response \<noteq> []"
proof -
  let ?r = "parse_ai_response_for_metadata None example_response"
  have in_r: "(''Description'', ''Title: Modern Oak Kitchen'') \<in> set ?r"
    by (simp add: example_response_parsed)
  have not_in: "(''Description'', ''Title: Modern Oak Kitchen'') \<notin>
      {(''Title'', ''Modern Oak Kitchen''), (''Make'', ''F032'')}"
    by simp
  have differ: "set ?r \<noteq> {(''Title'', ''Modern Oak Kitchen''), (''Make'', ''F032'')}"
    using in_r not_in by metis
  have fields: "map_of ?r ''Description'' = Some ''Title: Modern Oak Kitchen'' \<and>
      map_of ?r ''Keywords'' = Some ''kitchen, modern''"
    by (simp add: example_response_parsed)
  have prose: "CHR '':'' \<notin> set prose_response \<and>
      parse_ai_response_for_metadata None prose_response \<noteq> []"
    by (simp add: prose_response_parsed) (simp add: prose_response_def)
  show ?thesis
    using differ fields prose by blast
qed

text \<open>
  C5, amended. The parser applied to the example response returns the record with
  Description, Keywords, Title and Make shown below. For every response text that holds no
  colon and no equals sign, no \<open><title>\<close> tag, no line of more than 20 characters after
  stripping, none of the ten whitelist words and not the word \<open>egger\<close> (all compared
  case-insensitively), and with no filename context stored, the parser returns the empty
  record.
\<close>

theorem parse_ai_response_amended:
  "parse_ai_response_for_metadata None example_response =
     [(''Description'', ''Title: Modern Oak Kitchen''), (''Keywords'', ''kitchen, modern''),
      (''Title'', ''Modern Oak Kitchen''), (''Make'', ''F032'')] \<and>
   (CHR '':'' \<notin> set s \<and> CHR ''='' \<notin> set s \<and> \<not> py_in ''<title>'' (py_lower s) \<and>
    (\<forall>l \<in> set (py_split [newline] s). length (py_strip l) \<le> 20) \<and>
    (\<forall>k \<in> set keyword_indicators. \<not> py_in k (py_lower s)) \<and>
    \<not> py_in ''egger'' (py_lower s)
    \<longrightarrow> parse_ai_response_for_metadata None s = [])"
  using parse_empty_record [of s] by (simp add: example_response_parsed)

theorem parse_ai_response_amended_witness:
  "CHR '':'' \<notin> set ''hello'' \<and> CHR ''='' \<notin> set ''hello'' \<and>
   \<not> py_in ''<title>'' (py_lower ''hello'') \<and>
   list_all (\<lambda>l. length (py_strip l) \<le> 20) (py_split [newline] ''hello'') \<and>
   list_all (\<lambda>k. \<not> py_in k (py_lower ''hello'')) keyword_indicators \<and>
   \<not> py_in ''egger'' (py_lower ''hello'') \<and>
   parse_ai_response_for_metadata None ''hello'' = []"
proof -
  have h: "CHR '':'' \<notin> set ''hello'' \<and> CHR ''='' \<notin> set ''hello'' \<and>
     \<not> py_in ''<title>'' (py_lower ''hello'') \<and>
     (\<forall>l \<in> set (py_split [newline] ''hello''). length (py_strip l) \<le> 20) \<and>
     (\<forall>k \<in> set keyword_indicators. \<not> py_in k (py_lower ''hello'')) \<and>
     \<not> py_in ''egger'' (py_lower ''hello'')"
    by (simp add: keyword_indicators_def text_eval)
  with parse_ai_response_amended [of "''hello''"]
  have "parse_ai_response_for_metadata None ''hello'' = []"
    by blast
  with h show ?thesis
    by (simp add: list_all_iff)
qed

subsection \<open>Round trip through the interactive writers and the reader\<close>

lemma unat_byte_ascii: "c < 128 \<Longrightarrow> unat (of_nat c :: byte) = c"
  by (simp add: unat_of_nat)

lemma utf16le_char_ascii: "c < 128 \<Longrightarrow> utf16le_char c = Some [of_nat c, 0]"
  by (simp add: utf16le_char_def is_scalar_def utf16_unit_def)

lemma utf16le_encode_ascii:
  "\<forall>c \<in> set v. c < 128 \<Longrightarrow> utf16le_encode v = Some (concat (map (\<lambda>c. [of_nat c, 0]) v))"
  unfolding utf16le_encode_def
  by (induction v) (simp_all add: utf16le_char_ascii)

lemma utf16le_decode_ascii:
  "\<forall>c \<in> set v. c < 128 \<Longrightarrow> utf16le_decode (concat (map (\<lambda>c. [of_nat c, 0]) v)) = v"
  by (induction v) (simp_all add: unat_byte_ascii)

lemma no_bom_ascii:
  "\<forall>c \<in> set v. c < 128 \<Longrightarrow> \<not> prefix bom (concat (map (\<lambda>c. [of_nat c, 0]) v))"
proof (cases v)
  case Nil
  then show ?thesis by (simp add: bom_def)
next
  case (Cons c cs)
  assume "\<forall>c \<in> set v. c < 128"
  with Cons have "c < 128" by simp
  then have "unat (of_nat c :: byte) \<noteq> unat (0xFF :: byte)"
    by (simp add: unat_byte_ascii)
  then have "(of_nat c :: byte) \<noteq> 0xFF" by metis
  with Cons show ?thesis by (simp add: bom_def)
qed

lemma utf8_encode_ascii:
  "\<forall>c \<in> set v. c < 128 \<Longrightarrow> utf8_encode v = Some (map of_nat v)"
  unfolding utf8_encode_def
  by (induction v) (simp_all add: utf8_char_def is_scalar_def)

lemma utf8_decode_ascii:
  "\<forall>c \<in> set v. c < 128 \<Longrightarrow> utf8_decode (map of_nat v) = v"
  by (induction v) (simp_all add: unat_byte_ascii)

lemma latin1_ascii: "\<forall>c \<in> set v. c < 128 \<Longrightarrow> map (unat \<circ> (of_nat :: nat \<Rightarrow> byte)) v = v"
  by (induction v) (simp_all add: unat_byte_ascii)

lemma getexif_tag:
  "exif_0th img t = Some b \<Longrightarrow>
     getexif img t = Some (if t = 270 \<or> t = 271 \<or> t = 272 \<or> t = 315 then Str (map unat b) else Bytes b)"
  by (simp add: getexif_def)

lemma field_roundtrip_ascii:
  assumes "\<forall>c \<in> set v. c < 128" and "field_mapping k = Some (t, n, e)"
  shows "\<exists>b. encode_field e v = Some b \<and>
     decode_tag t (if t = 270 \<or> t = 271 \<or> t = 272 \<or> t = 315 then Str (map unat b) else Bytes b) = v"
proof (cases e)
  case Utf16le
  with assms(2) have t: "t = 40091 \<or> t = 40094"
    by (auto simp: field_mapping_def split: if_splits)
  let ?enc = "concat (map (\<lambda>c. [of_nat c, 0 :: byte]) v)"
  have enc: "encode_field e v = Some (bom @ ?enc)"
    using Utf16le assms(1) by (simp add: encode_field_def utf16le_encode_ascii no_bom_ascii)
  have strip: "(if prefix bom (bom @ ?enc) then drop 2 (bom @ ?enc) else bom @ ?enc) = ?enc"
    by (simp add: bom_def)
  have "decode_tag t (Bytes (bom @ ?enc)) = v"
    using t assms(1) unfolding decode_tag_def exif_value.case strip
    by (auto simp: utf16le_decode_ascii)
  with enc t show ?thesis by auto
next
  case Utf8
  with assms(2) have t: "t = 270 \<or> t = 271 \<or> t = 272 \<or> t = 315"
    by (auto simp: field_mapping_def split: if_splits)
  show ?thesis
    using t Utf8 assms(1)
    by (auto simp add: encode_field_def decode_tag_def utf8_encode_ascii latin1_ascii)
qed

lemma field_mapping_cases:
  "field_mapping k = Some x \<Longrightarrow>
     (k, x) \<in> {(''XPTitle'', (40091, ''XPTitle'', Utf16le)),
               (''ImageDescription'', (270, ''ImageDescription'', Utf8)),
               (''XPKeywords'', (40094, ''XPKeywords'', Utf16le)),
               (''Artist'', (315, ''Artist'', Utf8)),
               (''Make'', (271, ''Make'', Utf8)),
               (''Model'', (272, ''Model'', Utf8))}"
  unfolding field_mapping_def by (simp split: if_splits)

lemma TAGS_cases:
  "TAGS t = Some k \<Longrightarrow>
     (t, k) \<in> {(40091, ''XPTitle''), (270, ''ImageDescription''), (40094, ''XPKeywords''),
               (315, ''Artist''), (271, ''Make''), (272, ''Model'')}"
  unfolding TAGS_def by (simp split: if_splits)

lemma TAGS_inverse: "field_mapping k = Some (t, n, e) \<Longrightarrow> TAGS t = Some k"
  by (drule field_mapping_cases) (auto simp: TAGS_def)

lemma TAGS_inj: "TAGS t = Some k \<Longrightarrow> TAGS t' = Some k \<Longrightarrow> t = t'"
  by (drule TAGS_cases, drule TAGS_cases) auto

lemma field_mapping_inj:
  "field_mapping k = Some (t, n, e) \<Longrightarrow> field_mapping k' = Some (t, n', e') \<Longrightarrow> k = k'"
  by (drule field_mapping_cases, drule field_mapping_cases) auto

lemma standard_field_mapped:
  "k \<in> set simple_standard_fields \<Longrightarrow> \<exists>t n e. field_mapping k = Some (t, n, e)"
  by (auto simp: simple_standard_fields_def field_mapping_def)

lemma load_tag_same:
  "TAGS t = Some k \<Longrightarrow> ed t = Some d \<Longrightarrow> load_tag ed m t k = Some (decode_tag t d)"
  by (simp add: load_tag_def)

lemma load_tag_absent: "ed i = None \<Longrightarrow> load_tag ed m i = m"
  by (simp add: load_tag_def)

lemma load_tag_other:
  assumes "TAGS t = Some k" and "i \<noteq> t"
  shows "load_tag ed m i k = m k"
proof (cases "ed i")
  case None
  then show ?thesis by (simp add: load_tag_def)
next
  case (Some d)
  show ?thesis
  proof (cases "TAGS i")
    case None
    with Some show ?thesis by (simp add: load_tag_def)
  next
    case (Some tag)
    have "tag \<noteq> k"
    proof
      assume "tag = k"
      with Some have "TAGS i = Some k" by simp
      from TAGS_inj [OF this assms(1)] assms(2) show False by simp
    qed
    with Some \<open>ed i = Some d\<close> show ?thesis by (simp add: load_tag_def)
  qed
qed

lemma load_fold_other:
  "TAGS t = Some k \<Longrightarrow> t \<notin> set ids \<Longrightarrow> foldl (load_tag ed) m ids k = m k"
  by (induction ids arbitrary: m) (simp_all add: load_tag_other)

lemma load_fold_absent:
  "TAGS t = Some k \<Longrightarrow> ed t = None \<Longrightarrow> foldl (load_tag ed) m ids k = m k"
proof (induction ids arbitrary: m)
  case Nil
  then show ?case by simp
next
  case (Cons i ids)
  have "load_tag ed m i k = m k"
  proof (cases "i = t")
    case True
    with Cons.prems show ?thesis by (simp add: load_tag_absent)
  next
    case False
    with Cons.prems show ?thesis by (simp add: load_tag_other)
  qed
  with Cons show ?case by simp
qed

lemma load_fold_present:
  "TAGS t = Some k \<Longrightarrow> ed t = Some d \<Longrightarrow> t \<in> set ids \<Longrightarrow>
     foldl (load_tag ed) m ids k = Some (decode_tag t d)"
proof (induction ids arbitrary: m)
  case Nil
  then show ?case by simp
next
  case (Cons i ids)
  show ?case
  proof (cases "t \<in> set ids")
    case True
    with Cons show ?thesis by simp
  next
    case False
    with Cons.prems have it: "i = t" by simp
    have "foldl (load_tag ed) (load_tag ed m i) ids k = load_tag ed m i k"
      using Cons.prems(1) False by (rule load_fold_other)
    with it Cons.prems show ?thesis by (simp add: load_tag_same)
  qed
qed

lemma save_tags_lookup:
  assumes "distinct (map fst md)"
    and "\<forall>(k, v) \<in> set md. k \<in> set simple_standard_fields \<and> (\<forall>c \<in> set v. c < 128)"
  shows "\<exists>exif'. save_simple_jpeg_tags md exif = Some exif' \<and>
     (\<forall>(k, v) \<in> set md. \<exists>t n e b. field_mapping k = Some (t, n, e) \<and>
         encode_field e v = Some b \<and> exif' t = Some b) \<and>
     (\<forall>t. (\<forall>(k, v) \<in> set md. \<forall>n e. field_mapping k \<noteq> Some (t, n, e)) \<longrightarrow> exif' t = exif t)"
  using assms
proof (induction md arbitrary: exif)
  case Nil
  then show ?case by simp
next
  case (Cons kv md)
  obtain k v where kv: "kv = (k, v)" by (cases kv)
  from Cons.prems kv have kin: "k \<in> set simple_standard_fields" and asc: "\<forall>c \<in> set v. c < 128"
    by auto
  from standard_field_mapped [OF kin] obtain t n e where fm: "field_mapping k = Some (t, n, e)"
    by blast
  from field_roundtrip_ascii [OF asc fm] obtain b where b: "encode_field e v = Some b"
    by blast
  from Cons.prems kv have d: "distinct (map fst md)" and knot: "k \<notin> fst ` set md"
    and rest: "\<forall>(k, v) \<in> set md. k \<in> set simple_standard_fields \<and> (\<forall>c \<in> set v. c < 128)"
    by auto
  from Cons.IH [OF d rest, of "exif(t \<mapsto> b)"] obtain exif' where
    s: "save_simple_jpeg_tags md (exif(t \<mapsto> b)) = Some exif'"
    and l: "\<forall>(k, v) \<in> set md. \<exists>t n e b. field_mapping k = Some (t, n, e) \<and>
         encode_field e v = Some b \<and> exif' t = Some b"
    and o: "\<forall>t'. (\<forall>(k, v) \<in> set md. \<forall>n e. field_mapping k \<noteq> Some (t', n, e)) \<longrightarrow>
         exif' t' = (exif(t \<mapsto> b)) t'"
    by blast
  have untouched: "\<forall>(k', v') \<in> set md. \<forall>n' e'. field_mapping k' \<noteq> Some (t, n', e')"
  proof (clarify)
    fix k' v' n' e'
    assume "(k', v') \<in> set md" and "field_mapping k' = Some (t, n', e')"
    then have "k = k'" using field_mapping_inj [OF fm] by blast
    with \<open>(k', v') \<in> set md\<close> knot show False by force
  qed
  then have here: "exif' t = Some b"
    using o by simp
  have save: "save_simple_jpeg_tags (kv # md) exif = Some exif'"
    using kv fm b s by simp
  have all: "\<forall>(k, v) \<in> set (kv # md). \<exists>t n e b. field_mapping k = Some (t, n, e) \<and>
         encode_field e v = Some b \<and> exif' t = Some b"
    using kv fm b here l by auto
  have other: "\<forall>t'. (\<forall>(k, v) \<in> set (kv # md). \<forall>n e. field_mapping k \<noteq> Some (t', n, e)) \<longrightarrow>
         exif' t' = exif t'"
  proof (intro allI impI)
    fix t'
    assume a: "\<forall>(k, v) \<in> set (kv # md). \<forall>n e. field_mapping k \<noteq> Some (t', n, e)"
    then have "t' \<noteq> t" using kv fm by auto
    moreover from a have "\<forall>(k, v) \<in> set md. \<forall>n e. field_mapping k \<noteq> Some (t', n, e)" by auto
    ultimately show "exif' t' = exif t'" using o by simp
  qed
  show ?case using save all other by blast
qed


text \<open>
  C3, amended. For every metadata record whose keys are among the six canonical fields,
  each once, and whose values are ASCII strings: whenever the JPEG writer returns without
  raising - every value is encoded, the EXIF block fits a marker segment and the image
  write completes - the file holds an image, and the reader run on that file (whatever the
  order in which the stored tags are visited) returns every original string exactly; the
  byte-order mark the writer puts before Title and Keywords is stripped again by the
  reader.
\<close>

theorem jpeg_roundtrip:
  assumes "distinct (map fst md)"
    and "\<forall>(k, v) \<in> set md. k \<in> set simple_standard_fields \<and> (\<forall>c \<in> set v. c < 128)"
    and "save_simple_jpeg_metadata env file_path md files = (True, files')"
  shows "\<exists>img'. files' file_path = Some (Image img') \<and>
     (\<forall>tag_ids. set tag_ids = dom (exif_0th img') \<longrightarrow>
        (\<exists>fields. load_simple_metadata tag_ids files' file_path = Some fields \<and>
           (\<forall>(k, v) \<in> set md. fields k = Some v)))"
proof -
  from assms(3) obtain img where img: "files file_path = Some (Image img)"
    by (auto simp: save_simple_jpeg_metadata_def split: option.splits content.splits)
  from save_tags_lookup [OF assms(1,2), of "exif_0th img"] obtain exif' where
    s: "save_simple_jpeg_tags md (exif_0th img) = Some exif'"
    and l: "\<forall>(k, v) \<in> set md. \<exists>t n e b. field_mapping k = Some (t, n, e) \<and>
         encode_field e v = Some b \<and> exif' t = Some b"
    by blast
  define img' where "img' = \<lparr>exif_0th = exif', image_data = recompress env (image_data img)\<rparr>"
  from assms(3) have stored: "files' = files(file_path \<mapsto> Image img')"
    by (auto simp: save_simple_jpeg_metadata_def img s img'_def
        split: save_event.splits if_splits)
  have "load_simple_fields tag_ids (getexif img') k = Some v"
    if ids: "set tag_ids = dom (exif_0th img')" and kv: "(k, v) \<in> set md" for tag_ids k v
  proof -
    from l kv obtain t n e b where fm: "field_mapping k = Some (t, n, e)"
      and enc: "encode_field e v = Some b" and st: "exif' t = Some b"
      by blast
    from assms(2) kv have asc: "\<forall>c \<in> set v. c < 128" by auto
    let ?d = "if t = 270 \<or> t = 271 \<or> t = 272 \<or> t = 315 then Str (map unat b) else Bytes b"
    from field_roundtrip_ascii [OF asc fm] enc have dec: "decode_tag t ?d = v"
      by auto
    have view: "getexif img' t = Some ?d"
      using st by (intro getexif_tag) (simp add: img'_def)
    have "t \<in> set tag_ids" using ids st by (auto simp: img'_def)
    then have "foldl (load_tag (getexif img'))
        (map_of (map (\<lambda>f. (f, [])) simple_standard_fields)) tag_ids k = Some (decode_tag t ?d)"
      using view by (intro load_fold_present [OF TAGS_inverse [OF fm]])
    then show ?thesis
      unfolding load_simple_fields_def by (simp add: dec)
  qed
  then show ?thesis
    unfolding stored by (intro exI [of _ img']) (auto simp: load_simple_metadata_def)
qed


lemma oak_tags:
  "save_simple_jpeg_tags [(''XPTitle'', ustr_of ''Oak''), (''Make'', ustr_of ''F032'')] Map.empty =
     Some [40091 \<mapsto> [0xFF, 0xFE, 0x4F, 0, 0x61, 0, 0x6B, 0], 271 \<mapsto> [0x46, 0x30, 0x33, 0x32]]"
  by (simp add: field_mapping_def encode_field_def utf16le_encode_def utf8_encode_def
      utf16le_char_def utf8_char_def utf16_unit_def is_scalar_def bom_def ustr_of_def)

lemma oak_saved:
  "save_simple_jpeg_metadata calm_env ''/tmp/simple_temp_kitchen.jpg''
     [(''XPTitle'', ustr_of ''Oak''), (''Make'', ustr_of ''F032'')]
     [''/tmp/simple_temp_kitchen.jpg'' \<mapsto> Image photo] =
   (True, [''/tmp/simple_temp_kitchen.jpg'' \<mapsto>
      Image \<lparr>exif_0th = [40091 \<mapsto> [0xFF, 0xFE, 0x4F, 0, 0x61, 0, 0x6B, 0],
                          271 \<mapsto> [0x46, 0x30, 0x33, 0x32]],
             image_data = [0xFF, 0xD8]\<rparr>])"
proof -
  have f: "[''/tmp/simple_temp_kitchen.jpg'' \<mapsto> Image photo] ''/tmp/simple_temp_kitchen.jpg'' =
      Some (Image photo)"
    by simp
  have t: "save_simple_jpeg_tags [(''XPTitle'', ustr_of ''Oak''), (''Make'', ustr_of ''F032'')]
      (exif_0th photo) =
     Some [40091 \<mapsto> [0xFF, 0xFE, 0x4F, 0, 0x61, 0, 0x6B, 0], 271 \<mapsto> [0x46, 0x30, 0x33, 0x32]]"
    using oak_tags by (simp add: photo_def)
  show ?thesis
    unfolding save_simple_jpeg_metadata_def f t option.case content.case
    by (simp add: calm_env_def max_bytes_in_marker_def photo_def)
qed

lemma oak_refused:
  "save_simple_jpeg_metadata full_exif_env ''/tmp/simple_temp_kitchen.jpg''
     [(''XPTitle'', ustr_of ''Oak''), (''Make'', ustr_of ''F032'')]
     [''/tmp/simple_temp_kitchen.jpg'' \<mapsto> Image photo] =
     (False, [''/tmp/simple_temp_kitchen.jpg'' \<mapsto> Damaged []])"
proof -
  have f: "[''/tmp/simple_temp_kitchen.jpg'' \<mapsto> Image photo] ''/tmp/simple_temp_kitchen.jpg'' =
      Some (Image photo)"
    by simp
  have t: "save_simple_jpeg_tags [(''XPTitle'', ustr_of ''Oak''), (''Make'', ustr_of ''F032'')]
      (exif_0th photo) =
     Some [40091 \<mapsto> [0xFF, 0xFE, 0x4F, 0, 0x61, 0, 0x6B, 0], 271 \<mapsto> [0x46, 0x30, 0x33, 0x32]]"
    using oak_tags by (simp add: photo_def)
  show ?thesis
    unfolding save_simple_jpeg_metadata_def f t option.case content.case
    by (simp add: full_exif_env_def calm_env_def max_bytes_in_marker_def)
qed

theorem jpeg_roundtrip_witness:
  "distinct (map fst [(''XPTitle'', ustr_of ''Oak''), (''Make'', ustr_of ''F032'')]) \<and>
   list_all (\<lambda>(k, v). k \<in> set simple_standard_fields \<and> list_all (\<lambda>c. c < 128) v)
     [(''XPTitle'', ustr_of ''Oak''), (''Make'', ustr_of ''F032'')] \<and>
   fst (save_simple_jpeg_metadata calm_env ''/tmp/simple_temp_kitchen.jpg''
          [(''XPTitle'', ustr_of ''Oak''), (''Make'', ustr_of ''F032'')]
          [''/tmp/simple_temp_kitchen.jpg'' \<mapsto> Image photo]) \<and>
   (\<exists>fields.
      load_simple_metadata [271, 40091]
        (snd (save_simple_jpeg_metadata calm_env ''/tmp/simple_temp_kitchen.jpg''
                [(''XPTitle'', ustr_of ''Oak''), (''Make'', ustr_of ''F032'')]
                [''/tmp/simple_temp_kitchen.jpg'' \<mapsto> Image photo]))
        ''/tmp/simple_temp_kitchen.jpg'' = Some fields \<and>
      fields ''XPTitle'' = Some (ustr_of ''Oak'') \<and> fields ''Make'' = Some (ustr_of ''F032''))"
proof -
  let ?md = "[(''XPTitle'', ustr_of ''Oak''), (''Make'', ustr_of ''F032'')]"
  let ?files' = "[''/tmp/simple_temp_kitchen.jpg'' \<mapsto>
      Image \<lparr>exif_0th = [40091 \<mapsto> [0xFF, 0xFE, 0x4F, 0, 0x61, 0, 0x6B, 0 :: byte],
                          271 \<mapsto> [0x46, 0x30, 0x33, 0x32]],
             image_data = [0xFF, 0xD8]\<rparr>]"
  have h1: "distinct (map fst ?md)"
    by simp
  have h2: "\<forall>(k, v) \<in> set ?md. k \<in> set simple_standard_fields \<and> (\<forall>c \<in> set v. c < 128)"
    by (simp add: simple_standard_fields_def ustr_of_def)
  from jpeg_roundtrip [OF h1 h2 oak_saved] obtain img' where
    f: "?files' ''/tmp/simple_temp_kitchen.jpg'' = Some (Image img')"
    and l: "\<forall>tag_ids. set tag_ids = dom (exif_0th img') \<longrightarrow>
        (\<exists>fields. load_simple_metadata tag_ids ?files' ''/tmp/simple_temp_kitchen.jpg'' = Some fields \<and>
           (\<forall>(k, v) \<in> set ?md. fields k = Some v))"
    by blast
  from f have "set [271, 40091 :: nat] = dom (exif_0th img')"
    by (auto split: if_splits)
  with l obtain fields where
    "load_simple_metadata [271, 40091] ?files' ''/tmp/simple_temp_kitchen.jpg'' = Some fields"
    "\<forall>(k, v) \<in> set ?md. fields k = Some v"
    by blast
  then have "\<exists>fields.
      load_simple_metadata [271, 40091] ?files' ''/tmp/simple_temp_kitchen.jpg'' = Some fields \<and>
      fields ''XPTitle'' = Some (ustr_of ''Oak'') \<and> fields ''Make'' = Some (ustr_of ''F032'')"
    by auto
  moreover have "list_all (\<lambda>(k, v). k \<in> set simple_standard_fields \<and> list_all (\<lambda>c. c < 128) v) ?md"
    by (simp add: simple_standard_fields_def ustr_of_def)
  ultimately show ?thesis
    unfolding oak_saved using h1 by simp
qed

lemma exiftool_found:
  "find_exiftool calm_env exiftool_paths files = (Some ''exiftool'', files)"
  by (simp add: exiftool_paths_def calm_env_def exiftool_run_def)

text \<open>
  C3, as stated, fails. The WebP writer hands the tool the tag name and the quoted value as
  two arguments, none of the form \<open>-TAG=VALUE\<close>: for the record with Title \<open>Oak\<close> the tool
  is asked to read \<open>XMP:Title\<close> from a file named \<open>"Oak"\<close>, ends with status 1, the writer
  raises, and the file read afterwards has an empty Title. And the JPEG writer raises on a
  record that makes the EXIF block longer than a marker segment.
\<close>

theorem backend_roundtrip_counterexample:
  "save_simple_webp_metadata calm_env ''/tmp/simple_temp_kitchen.webp'' [(''XPTitle'', ''Oak'')]
     [''/tmp/simple_temp_kitchen.webp'' \<mapsto> Image photo] =
     (False, [''/tmp/simple_temp_kitchen.webp'' \<mapsto> Image photo]) \<and>
   map_option (\<lambda>fields. fields ''XPTitle'')
     (load_simple_metadata [] [''/tmp/simple_temp_kitchen.webp'' \<mapsto> Image photo]
        ''/tmp/simple_temp_kitchen.webp'') = Some (Some []) \<and>
   save_simple_jpeg_metadata full_exif_env ''/tmp/simple_temp_kitchen.jpg''
     [(''XPTitle'', ustr_of ''Oak''), (''Make'', ustr_of ''F032'')]
     [''/tmp/simple_temp_kitchen.jpg'' \<mapsto> Image photo] =
     (False, [''/tmp/simple_temp_kitchen.jpg'' \<mapsto> Damaged []])"
proof -
  have args: "webp_args [(''XPTitle'', ''Oak'')] = [''-XMP:Title'', [CHR 0x22] @ ''Oak'' @ [CHR 0x22]]"
    by (simp add: webp_args_def webp_field_mapping_def)
  have run: "run_tool calm_env
      ([''exiftool'', ''-overwrite_original''] @ webp_args [(''XPTitle'', ''Oak'')] @
       [''/tmp/simple_temp_kitchen.webp''])
      [''/tmp/simple_temp_kitchen.webp'' \<mapsto> Image photo] =
      Some (1, [''/tmp/simple_temp_kitchen.webp'' \<mapsto> Image photo])"
    unfolding args by (simp add: calm_env_def exiftool_run_def)
  have a: "save_simple_webp_metadata calm_env ''/tmp/simple_temp_kitchen.webp'' [(''XPTitle'', ''Oak'')]
     [''/tmp/simple_temp_kitchen.webp'' \<mapsto> Image photo] =
     (False, [''/tmp/simple_temp_kitchen.webp'' \<mapsto> Image photo])"
    unfolding save_simple_webp_metadata_def exiftool_found prod.case option.case run by simp
  have b: "map_option (\<lambda>fields. fields ''XPTitle'')
     (load_simple_metadata [] [''/tmp/simple_temp_kitchen.webp'' \<mapsto> Image photo]
        ''/tmp/simple_temp_kitchen.webp'') = Some (Some [])"
    by (simp add: load_simple_metadata_def load_simple_fields_def simple_standard_fields_def)
  note c = oak_refused
  from a b c show ?thesis by simp
qed

subsection \<open>Tag encodings of the two JPEG writers\<close>

lemma encode_field_utf16le_has_bom: "encode_field Utf16le v = Some b \<Longrightarrow> prefix bom b"
  by (auto simp: encode_field_def split: option.splits if_splits)

lemma direct_title_has_no_bom:
  "map_option (\<lambda>exif'. exif' 40091) (save_jpeg_direct_tags [''XPTitle'' \<mapsto> [0x41]] Map.empty) =
     Some (Some [0x41, 0x00]) \<and>
   map_option (\<lambda>exif'. exif' 40091) (save_simple_jpeg_tags [(''XPTitle'', [0x41])] Map.empty) =
     Some (Some [0xFF, 0xFE, 0x41, 0x00])"
  by (simp add: save_jpeg_direct_tags_def set_direct_def field_mapping_def encode_field_def
      utf16le_encode_def utf16le_char_def utf16_unit_def is_scalar_def bom_def)

lemma kitchen_suffix: "py_lower (path_suffix ''/photos/kitchen.jpg'') = ''.jpg''"
  by (simp add: path_suffix_def path_name_def text_eval)

lemma f032_utf8: "utf8_encode (ustr_of ''F032'') = Some [0x46, 0x30, 0x33, 0x32]"
  by (simp add: utf8_encode_def utf8_char_def is_scalar_def ustr_of_def)

text \<open>
  C2 at the batch pipeline. The response parser names its fields \<open>Title\<close>, \<open>Description\<close>
  and \<open>Keywords\<close>; \<open>_save_jpeg_metadata_direct\<close> looks for \<open>XPTitle\<close>, \<open>ImageDescription\<close>
  and \<open>XPKeywords\<close>. On the example response the batch step reports success, and the file
  it wrote holds the Make under tag 271 and nothing under the tags 40091, 270 and 40094,
  although the record has a Title, a Description and Keywords.
\<close>

theorem batch_jpeg_stores_make_only:
  "process_single_image_ai calm_env init_state ''/photos/kitchen.jpg''
       [''/photos/kitchen.jpg'' \<mapsto> Image photo] =
     (True, [''/photos/kitchen.jpg'' \<mapsto>
               Image \<lparr>exif_0th = [271 \<mapsto> [0x46, 0x30, 0x33, 0x32]], image_data = [0xFF, 0xD8]\<rparr>]) \<and>
   map_of (parse_ai_response_for_metadata None example_response) ''Title'' = Some ''Modern Oak Kitchen'' \<and>
   [271 \<mapsto> [0x46, 0x30, 0x33, 0x32 :: byte]] (40091 :: nat) = None \<and>
   [271 \<mapsto> [0x46, 0x30, 0x33, 0x32 :: byte]] (270 :: nat) = None \<and>
   [271 \<mapsto> [0x46, 0x30, 0x33, 0x32 :: byte]] (40094 :: nat) = None"
proof -
  define md where "md = map_option ustr_of \<circ> map_of (parse_ai_response_for_metadata None example_response)"
  have lookups: "md ''XPTitle'' = None" "md ''ImageDescription'' = None" "md ''XPKeywords'' = None"
    "md ''Artist'' = None" "md ''Make'' = Some (ustr_of ''F032'')" "md ''Model'' = None"
    by (simp_all add: md_def example_response_parsed)
  have tags: "save_jpeg_direct_tags md Map.empty = Some [271 \<mapsto> [0x46, 0x30, 0x33, 0x32]]"
    by (simp add: save_jpeg_direct_tags_def set_direct_def lookups f032_utf8)
  have r: "lm_studio_reply calm_env ''/photos/kitchen.jpg'' = Some example_response"
    "save_event_at calm_env ''/photos/kitchen.jpg'' = Completes"
    "recompress calm_env [0xFF, 0xD8] = [0xFF, 0xD8]"
    by (simp_all add: calm_env_def)
  have direct: "save_jpeg_metadata_direct calm_env ''/photos/kitchen.jpg'' md
      [''/photos/kitchen.jpg'' \<mapsto> Image photo] =
     (True, [''/photos/kitchen.jpg'' \<mapsto>
               Image \<lparr>exif_0th = [271 \<mapsto> [0x46, 0x30, 0x33, 0x32]], image_data = [0xFF, 0xD8]\<rparr>])"
    by (simp add: save_jpeg_metadata_direct_def tags r photo_def)
  have s: "save_metadata_to_file calm_env init_state ''/photos/kitchen.jpg''
      (parse_ai_response_for_metadata None example_response) [''/photos/kitchen.jpg'' \<mapsto> Image photo] =
     save_jpeg_metadata_direct calm_env ''/photos/kitchen.jpg'' md [''/photos/kitchen.jpg'' \<mapsto> Image photo]"
    unfolding save_metadata_to_file_def kitchen_suffix Let_def md_def by simp
  have ne: "example_response \<noteq> []" "parse_ai_response_for_metadata None example_response \<noteq> []"
    by (simp_all add: example_response_parsed) (simp add: example_response_def)
  have c: "current_filename_data init_state = None"
    by (simp add: init_state_def)
  have p: "process_single_image_ai calm_env init_state ''/photos/kitchen.jpg''
       [''/photos/kitchen.jpg'' \<mapsto> Image photo] =
     save_metadata_to_file calm_env init_state ''/photos/kitchen.jpg''
      (parse_ai_response_for_metadata None example_response) [''/photos/kitchen.jpg'' \<mapsto> Image photo]"
    using ne unfolding process_single_image_ai_def r c Let_def by simp
  show ?thesis
    unfolding p s direct by (simp add: example_response_parsed)
qed

subsection \<open>Batch entry point and WebP writer\<close>

lemma start_independent_of_flag:
  "fst (start_batch_ai_processing askyesno (self\<lparr>ai_processing := b\<rparr>)) =
   fst (start_batch_ai_processing askyesno self)"
  by (simp add: start_batch_ai_processing_def)

text \<open>
  C6 at the entry point. \<open>start_batch_ai_processing\<close> never reads \<open>ai_processing\<close>: in a
  state where a run is active (flag set, one thread running), with a folder, AI enabled,
  chat rules present and the dialog confirmed, it starts a second thread.
\<close>

theorem second_run_is_started:
  "ai_processing running_state \<and> batch_threads running_state = 1 \<and>
   fst (start_batch_ai_processing True running_state) = Thread_started \<and>
   batch_threads (snd (start_batch_ai_processing True running_state)) = 2"
  by (simp add: start_batch_ai_processing_def running_state_def init_state_def)

text \<open>
  C9. In every state in which the attribute \<open>exiftool_path\<close> is unset - the initial state,
  and every state the modelled operations reach from it, since none assigns it - the batch
  WebP writer returns \<open>False\<close> for every path and record without running the tool or
  touching a file, and so does \<open>_save_metadata_to_file\<close> on every \<open>.webp\<close> path.
\<close>

theorem webp_direct_always_fails:
  "exiftool_path self = None \<longrightarrow>
     save_webp_metadata_direct env self image_path metadata_dict files = (False, files) \<and>
     (py_lower (path_suffix image_path) = ''.webp'' \<longrightarrow>
        save_metadata_to_file env self image_path md files = (False, files))"
  by (simp add: save_webp_metadata_direct_def save_metadata_to_file_def)

lemma start_keeps_exiftool_path:
  "exiftool_path (snd (start_batch_ai_processing askyesno self)) = exiftool_path self"
  by (simp add: start_batch_ai_processing_def)

lemma batch_keeps_exiftool_path:
  "exiftool_path (fst (process_batch_with proc self w)) = exiftool_path self"
  by (simp add: process_batch_with_def Let_def split: prod.splits)

theorem webp_direct_always_fails_witness:
  "exiftool_path init_state = None \<and>
   py_lower (path_suffix ''/photos/kitchen.webp'') = ''.webp'' \<and>
   save_webp_metadata_direct crash_env init_state ''/photos/kitchen.webp'' [''XPTitle'' \<mapsto> ''Oak'']
     [''/photos/kitchen.webp'' \<mapsto> Image photo]
     = (False, [''/photos/kitchen.webp'' \<mapsto> Image photo]) \<and>
   save_metadata_to_file crash_env init_state ''/photos/kitchen.webp'' [(''XPTitle'', ''Oak'')]
     [''/photos/kitchen.webp'' \<mapsto> Image photo]
     = (False, [''/photos/kitchen.webp'' \<mapsto> Image photo])"
proof -
  have a: "exiftool_path init_state = None"
    by (simp add: init_state_def)
  have b: "py_lower (path_suffix ''/photos/kitchen.webp'') = ''.webp''"
    by (simp add: path_suffix_def path_name_def text_eval)
  show ?thesis
    using webp_direct_always_fails [of init_state crash_env "''/photos/kitchen.webp''"
        "[''XPTitle'' \<mapsto> ''Oak'']" "[''/photos/kitchen.webp'' \<mapsto> Image photo]"
        "[(''XPTitle'', ''Oak'')]"] a b
    by blast
qed

subsection \<open>In-place writes of the batch pipeline\<close>

lemma direct_jpeg_touches_only_target:
  "p \<noteq> image_path \<Longrightarrow> snd (save_jpeg_metadata_direct env image_path md files) p = files p"
  by (simp add: save_jpeg_metadata_direct_def
      split: option.splits content.splits save_event.splits)

text \<open>
  C1 at the batch JPEG writer. \<open>_save_jpeg_metadata_direct\<close> opens no temporary file: it
  hands \<open>image.save\<close> the image path itself. When the save raises after opening its target,
  the function reports \<open>False\<close> and the original file holds what the failed write left.
\<close>

theorem direct_write_damages_original:
  "save_jpeg_metadata_direct crash_env ''a.jpg'' [''XPTitle'' \<mapsto> [0x41]] [''a.jpg'' \<mapsto> Image photo] =
     (False, [''a.jpg'' \<mapsto> Damaged []]) \<and>
   [''a.jpg'' \<mapsto> Damaged []] ''a.jpg'' \<noteq> [''a.jpg'' \<mapsto> Image photo] ''a.jpg''"
  by (simp add: save_jpeg_metadata_direct_def crash_env_def photo_def save_jpeg_direct_tags_def
      set_direct_def utf16le_encode_def utf16le_char_def utf16_unit_def is_scalar_def)

subsection \<open>Batch loop\<close>

























end
